theory Spec2Isabelle
  imports Main
begin

section \<open>JavaScript values used by the generators\<close>

text \<open>
  Strings are lists of characters. The string operations below follow JavaScript on
  ASCII text; characters outside ASCII are left alone by the case conversions and are
  neither word characters nor white space.

  An object property that may be absent is an \<open>option\<close>; \<open>truthy\<close> is JavaScript's
  truthiness of such a property when it holds a string (absent and the empty string are
  falsy). A property that the code only ever tests for truthiness is a \<open>bool\<close>.
\<close>

definition isUpper :: "char \<Rightarrow> bool" where
  "isUpper c = (65 \<le> (of_char c :: nat) \<and> (of_char c :: nat) \<le> 90)"

definition isLower :: "char \<Rightarrow> bool" where
  "isLower c = (97 \<le> (of_char c :: nat) \<and> (of_char c :: nat) \<le> 122)"

definition isDigit :: "char \<Rightarrow> bool" where
  "isDigit c = (48 \<le> (of_char c :: nat) \<and> (of_char c :: nat) \<le> 57)"

definition isWordChar :: "char \<Rightarrow> bool" where
  \<comment> \<open>the class \<open>\w\<close>\<close>
  "isWordChar c = (isUpper c \<or> isLower c \<or> isDigit c \<or> c = CHR ''_'')"

definition isSpace :: "char \<Rightarrow> bool" where
  \<comment> \<open>the class \<open>\s\<close>, which is also what \<open>trim\<close> removes\<close>
  "isSpace c = ((of_char c :: nat) \<in> {9, 10, 11, 12, 13, 32})"

definition lowerChar :: "char \<Rightarrow> char" where
  "lowerChar c = (if isUpper c then char_of ((of_char c :: nat) + 32) else c)"

definition upperChar :: "char \<Rightarrow> char" where
  "upperChar c = (if isLower c then char_of ((of_char c :: nat) - 32) else c)"

definition toLowerCase :: "string \<Rightarrow> string" where
  "toLowerCase s = map lowerChar s"

definition toUpperCase :: "string \<Rightarrow> string" where
  "toUpperCase s = map upperChar s"

fun startsWith :: "string \<Rightarrow> string \<Rightarrow> bool" where
  "startsWith s [] = True"
| "startsWith [] (p # ps) = False"
| "startsWith (c # cs) (p # ps) = (c = p \<and> startsWith cs ps)"

fun includesStr :: "string \<Rightarrow> string \<Rightarrow> bool" where
  \<comment> \<open>\<open>String.prototype.includes\<close>\<close>
  "includesStr [] sub = (sub = [])"
| "includesStr (c # cs) sub = (startsWith (c # cs) sub \<or> includesStr cs sub)"

definition endsWith :: "string \<Rightarrow> string \<Rightarrow> bool" where
  "endsWith s p = startsWith (rev s) (rev p)"

definition truthy :: "string option \<Rightarrow> bool" where
  "truthy v = (case v of None \<Rightarrow> False | Some s \<Rightarrow> s \<noteq> [])"

definition orElse :: "string option \<Rightarrow> string option \<Rightarrow> string option" where
  \<comment> \<open>\<open>a || b\<close> on optional strings\<close>
  "orElse a b = (if truthy a then a else b)"

definition orDefault :: "string option \<Rightarrow> string \<Rightarrow> string" where
  \<comment> \<open>\<open>a || 'literal'\<close>\<close>
  "orDefault a d = (if truthy a then the a else d)"

definition str_of :: "string option \<Rightarrow> string" where
  \<comment> \<open>an optional string inside a template literal\<close>
  "str_of v = (case v of None \<Rightarrow> ''undefined'' | Some s \<Rightarrow> s)"

fun findIndex :: "('a \<Rightarrow> bool) \<Rightarrow> 'a list \<Rightarrow> nat option" where
  "findIndex P [] = None"
| "findIndex P (x # xs) =
     (if P x then Some 0 else map_option Suc (findIndex P xs))"

definition some :: "('a \<Rightarrow> bool) \<Rightarrow> 'a list \<Rightarrow> bool" where
  \<comment> \<open>\<open>Array.prototype.some\<close>\<close>
  "some P xs = (find P xs \<noteq> None)"

section \<open>Data model\<close>

record reference =
  ref_table :: string
  ref_column :: string
  ref_onDelete :: "string option"
  ref_onUpdate :: "string option"

text \<open>
  A column of a schema. \<open>c_isPrimaryKey\<close> and \<open>c_isForeignKey\<close> are only ever tested for
  truthiness; \<open>c_isNullable\<close> is compared with \<open>false\<close>, so its absence is kept apart.
\<close>

record column =
  c_name :: string
  c_dataType :: "string option"
  c_isPrimaryKey :: bool
  c_isForeignKey :: bool
  c_isNullable :: "bool option"
  c_isUnique :: "bool option"
  c_defaultValue :: "string option"
  c_references :: "reference option"
  c_isMultivalued :: "bool option"
  c_isDerived :: "bool option"
  c_isComposite :: "bool option"
  c_description :: "string option"

record rel_attribute =
  ra_name :: string
  ra_dataType :: "string option"
  ra_isPrimaryKey :: bool
  ra_isForeignKey :: bool
  ra_isNullable :: "bool option"
  ra_isUnique :: bool
  ra_isMultiValued :: bool
  ra_isDerived :: bool
  ra_description :: "string option"

record table =
  t_name :: string
  t_columns :: "column list"
  t_description :: "string option"
  t_isWeakEntity :: bool
  t_isLookupTable :: bool
  t_isJunctionTable :: bool

record cardinality =
  card_source :: "string option"
  card_target :: "string option"

record relationship =
  r_name :: "string option"
  r_sourceTable :: "string option"
  r_sourceEntity :: "string option"
  r_targetTable :: "string option"
  r_targetEntity :: "string option"
  r_sourceColumn :: "string option"
  r_targetColumn :: "string option"
  r_type :: "string option"
  r_isIdentifying :: bool
  r_description :: "string option"
  r_sourceCardinality :: "string option"
  r_targetCardinality :: "string option"
  r_sourceParticipation :: "string option"
  r_targetParticipation :: "string option"
  r_attributes :: "rel_attribute list option"
  r_cardinality :: "cardinality option"

text \<open>
  The schema. Its layout hints (\<open>position\<close>, \<open>nodePositions\<close>), the \<open>assumptionsMade\<close>
  notes and the two time stamps taken from the clock are not modelled: no generator
  decision reads them.
\<close>

record schema =
  s_name :: string
  s_description :: string
  s_tables :: "table list"
  s_relationships :: "relationship list"
  s_version :: nat

subsection \<open>The extraction result given to the normalizer\<close>

record attribute =
  a_name :: "string option"
  a_dataType :: "string option"
  a_isPrimaryKey :: bool
  a_isForeignKey :: bool
  a_isNullable :: "bool option"
  a_isUnique :: bool
  a_defaultValue :: "string option"
  a_references :: "reference option"
  a_isMultivalued :: bool
  a_isDerived :: bool
  a_isComposite :: bool
  a_description :: "string option"

record entity =
  e_name :: "string option"
  e_attributes :: "attribute list"
  e_description :: "string option"
  e_isWeakEntity :: bool
  e_isLookupTable :: bool

record raw_rel_attribute =
  xa_name :: "string option"
  xa_dataType :: "string option"
  xa_isPrimaryKey :: bool
  xa_isForeignKey :: bool
  xa_isNullable :: "bool option"
  xa_isUnique :: bool
  xa_isMultiValued :: bool
  xa_isMultivalued :: bool
  xa_isDerived :: bool
  xa_description :: "string option"

record raw_relationship =
  x_name :: "string option"
  x_action :: "string option"
  x_verb :: "string option"
  x_sourceEntity :: "string option"
  x_sourceTable :: "string option"
  x_targetEntity :: "string option"
  x_targetTable :: "string option"
  x_type :: "string option"
  x_isIdentifying :: bool
  x_description :: "string option"
  x_sourceCardinality :: "string option"
  x_targetCardinality :: "string option"
  x_sourceParticipation :: "string option"
  x_targetParticipation :: "string option"
  x_attributes :: "raw_rel_attribute list option"

section \<open>The schema normalizer (\<open>schemaGenerator.service.js\<close>)\<close>

subsection \<open>Names and data types\<close>

fun camelSplit :: "string \<Rightarrow> string" where
  \<comment> \<open>\<open>.replace(/([a-z])([A-Z])/g, '$1_$2')\<close>: matches do not overlap\<close>
  "camelSplit (a # b # cs) =
     (if isLower a \<and> isUpper b then a # CHR ''_'' # b # camelSplit cs
      else a # camelSplit (b # cs))"
| "camelSplit cs = cs"

fun spacesToUnderscore :: "bool \<Rightarrow> string \<Rightarrow> string" where
  \<comment> \<open>\<open>.replace(/\s+/g, '_')\<close>; the flag says that the run of white space has begun\<close>
  "spacesToUnderscore inRun [] = []"
| "spacesToUnderscore inRun (c # cs) =
     (if isSpace c then
        (if inRun then spacesToUnderscore True cs
         else CHR ''_'' # spacesToUnderscore True cs)
      else c # spacesToUnderscore False cs)"

definition leadingDigit :: "string \<Rightarrow> string" where
  \<comment> \<open>\<open>.replace(/^[0-9]/, '_$&')\<close>\<close>
  "leadingDigit s = (case s of [] \<Rightarrow> [] | c # cs \<Rightarrow> if isDigit c then CHR ''_'' # c # cs else c # cs)"

definition transformTableName :: "string option \<Rightarrow> string" where
  "transformTableName entityName =
     (if \<not> truthy entityName then ''unnamed_table''
      else leadingDigit
             (filter (\<lambda>c. isLower c \<or> isDigit c \<or> c = CHR ''_'')
                (spacesToUnderscore False (toLowerCase (camelSplit (the entityName))))))"

definition inferDataType :: "string \<Rightarrow> string" where
  "inferDataType attributeName =
     (if attributeName = [] then ''VARCHAR(255)''
      else let name = toLowerCase attributeName in
        if name = ''id'' \<or> endsWith name ''_id'' \<or> endsWith name ''id'' then ''INTEGER''
        else if includesStr name ''uuid'' \<or> includesStr name ''guid'' then ''VARCHAR(36)''
        else if includesStr name ''date'' \<or> includesStr name ''time'' then ''TIMESTAMP''
        else if includesStr name ''price'' \<or> includesStr name ''cost'' \<or> includesStr name ''amount''
                \<or> includesStr name ''fee'' \<or> includesStr name ''salary'' \<or> includesStr name ''budget''
          then ''DECIMAL(10,2)''
        else if includesStr name ''is_'' \<or> includesStr name ''has_'' \<or> name = ''active''
                \<or> name = ''enabled'' \<or> name = ''status'' \<or> includesStr name ''_flag''
          then ''BOOLEAN''
        else if includesStr name ''description'' \<or> includesStr name ''content''
                \<or> includesStr name ''text'' \<or> includesStr name ''comment'' \<or> includesStr name ''notes''
          then ''TEXT''
        else if includesStr name ''email'' then ''VARCHAR(255)''
        else if includesStr name ''password'' \<or> includesStr name ''hash'' then ''VARCHAR(255)''
        else if includesStr name ''phone'' \<or> includesStr name ''fax'' \<or> includesStr name ''mobile''
          then ''VARCHAR(20)''
        else if includesStr name ''url'' \<or> includesStr name ''link'' \<or> includesStr name ''website''
          then ''VARCHAR(512)''
        else if includesStr name ''code'' \<or> includesStr name ''key'' then ''VARCHAR(50)''
        else if includesStr name ''count'' \<or> includesStr name ''quantity'' \<or> includesStr name ''number''
                \<or> includesStr name ''total'' \<or> includesStr name ''age''
          then ''INTEGER''
        else if includesStr name ''percent'' \<or> includesStr name ''rate'' \<or> includesStr name ''ratio''
          then ''DECIMAL(5,2)''
        else if includesStr name ''image'' \<or> includesStr name ''file'' \<or> includesStr name ''avatar''
                \<or> includesStr name ''picture'' \<or> includesStr name ''photo''
          then ''VARCHAR(512)''
        else if includesStr name ''json'' \<or> includesStr name ''data'' then ''TEXT''
        else if includesStr name ''ip'' \<or> includesStr name ''ipv4'' \<or> includesStr name ''ipv6''
          then ''VARCHAR(45)''
        else if includesStr name ''color'' then ''VARCHAR(20)''
        else if includesStr name ''currency'' \<or> includesStr name ''language'' then ''VARCHAR(10)''
        else ''VARCHAR(255)'')"

subsection \<open>Columns of a table\<close>

definition idColumn :: column where
  "idColumn = \<lparr> c_name = ''id'', c_dataType = Some ''INTEGER'', c_isPrimaryKey = True,
     c_isForeignKey = False, c_isNullable = Some False, c_isUnique = Some True,
     c_defaultValue = None, c_references = None, c_isMultivalued = None, c_isDerived = None,
     c_isComposite = None, c_description = Some ''Primary key'' \<rparr>"

definition nameColumn :: column where
  "nameColumn = \<lparr> c_name = ''name'', c_dataType = Some ''VARCHAR(255)'', c_isPrimaryKey = False,
     c_isForeignKey = False, c_isNullable = Some False, c_isUnique = Some False,
     c_defaultValue = None, c_references = None, c_isMultivalued = None, c_isDerived = None,
     c_isComposite = None, c_description = Some ''Name field'' \<rparr>"

definition createdAtColumn :: column where
  "createdAtColumn = \<lparr> c_name = ''created_at'', c_dataType = Some ''TIMESTAMP'',
     c_isPrimaryKey = False, c_isForeignKey = False, c_isNullable = Some False, c_isUnique = None,
     c_defaultValue = Some ''CURRENT_TIMESTAMP'', c_references = None, c_isMultivalued = None,
     c_isDerived = None, c_isComposite = None, c_description = Some ''Creation timestamp'' \<rparr>"

definition updatedAtColumn :: column where
  "updatedAtColumn = \<lparr> c_name = ''updated_at'', c_dataType = Some ''TIMESTAMP'',
     c_isPrimaryKey = False, c_isForeignKey = False, c_isNullable = Some False, c_isUnique = None,
     c_defaultValue = Some ''CURRENT_TIMESTAMP'', c_references = None, c_isMultivalued = None,
     c_isDerived = None, c_isComposite = None, c_description = Some ''Last update timestamp'' \<rparr>"

definition attributeColumn :: "attribute \<Rightarrow> column" where
  "attributeColumn attr =
     \<lparr> c_name = (if truthy (a_name attr)
                  then spacesToUnderscore False (toLowerCase (the (a_name attr)))
                  else ''unnamed_column''),
       c_dataType = Some (orDefault (a_dataType attr) (inferDataType (orDefault (a_name attr) []))),
       c_isPrimaryKey = a_isPrimaryKey attr,
       c_isForeignKey = a_isForeignKey attr,
       c_isNullable = Some (a_isNullable attr \<noteq> Some False),
       c_isUnique = Some (a_isUnique attr \<or> a_isPrimaryKey attr),
       c_defaultValue = a_defaultValue attr,
       c_references = a_references attr,
       c_isMultivalued = Some (a_isMultivalued attr),
       c_isDerived = Some (a_isDerived attr),
       c_isComposite = Some (a_isComposite attr),
       c_description = Some (orDefault (a_description attr)
                               (orDefault (a_name attr) ''Field'' @ '' column'')) \<rparr>"

definition generateColumnsFromAttributes :: "attribute list \<Rightarrow> column list" where
  "generateColumnsFromAttributes attributes =
     (if attributes = [] then [idColumn, nameColumn, createdAtColumn, updatedAtColumn]
      else map attributeColumn attributes)"

definition ensurePrimaryKey :: "column list \<Rightarrow> column list" where
  \<comment> \<open>\<open>unshift\<close> of the \<open>id\<close> column\<close>
  "ensurePrimaryKey cols = (if \<not> some c_isPrimaryKey cols then idColumn # cols else cols)"

definition ensureCreatedAt :: "column list \<Rightarrow> column list" where
  "ensureCreatedAt cols =
     (if \<not> some (\<lambda>col. c_name col = ''created_at'') cols then cols @ [createdAtColumn] else cols)"

definition ensureUpdatedAt :: "column list \<Rightarrow> column list" where
  "ensureUpdatedAt cols =
     (if \<not> some (\<lambda>col. c_name col = ''updated_at'') cols then cols @ [updatedAtColumn] else cols)"

definition entityTable :: "entity \<Rightarrow> table" where
  \<comment> \<open>the body of \<open>entities.map\<close> in \<open>generateSchema\<close>\<close>
  "entityTable ent =
     \<lparr> t_name = transformTableName (e_name ent),
       t_columns = ensureUpdatedAt (ensureCreatedAt (ensurePrimaryKey
                     (generateColumnsFromAttributes (e_attributes ent)))),
       t_description = Some (orDefault (e_description ent) (''Table for '' @ str_of (e_name ent))),
       t_isWeakEntity = e_isWeakEntity ent,
       t_isLookupTable = e_isLookupTable ent,
       t_isJunctionTable = False \<rparr>"

subsection \<open>Relationships and foreign keys\<close>

text \<open>
  The code mutates the table objects of the array \<open>tables\<close> while it walks over the
  relationships. The model threads the table list through: a table object is the
  position it has in the list, and a mutation of it is an update at that position.
\<close>

record pk_ref =
  pk_name :: string
  pk_dataType :: "string option"

definition primaryKeyOr :: "pk_ref \<Rightarrow> table \<Rightarrow> pk_ref" where
  \<comment> \<open>\<open>table.columns.find(c => c.isPrimaryKey) || fallback\<close>\<close>
  "primaryKeyOr fallback tbl =
     (case find c_isPrimaryKey (t_columns tbl) of
        Some c \<Rightarrow> \<lparr> pk_name = c_name c, pk_dataType = c_dataType c \<rparr>
      | None \<Rightarrow> fallback)"

definition foreignKeyColumn :: "table \<Rightarrow> pk_ref \<Rightarrow> column" where
  \<comment> \<open>the object pushed by \<open>addForeignKey\<close>\<close>
  "foreignKeyColumn referencedTable referencedColumn =
     \<lparr> c_name = toLowerCase (t_name referencedTable) @ ''_id'',
       c_dataType = Some (orDefault (pk_dataType referencedColumn) ''INTEGER''),
       c_isPrimaryKey = False,
       c_isForeignKey = True,
       c_isNullable = Some True,
       c_isUnique = Some False,
       c_defaultValue = None,
       c_references = Some \<lparr> ref_table = t_name referencedTable,
                               ref_column = pk_name referencedColumn,
                               ref_onDelete = Some ''CASCADE'',
                               ref_onUpdate = Some ''CASCADE'' \<rparr>,
       c_isMultivalued = None, c_isDerived = None, c_isComposite = None,
       c_description = Some (''Foreign key reference to '' @ t_name referencedTable) \<rparr>"

definition addForeignKey :: "nat \<Rightarrow> table \<Rightarrow> pk_ref \<Rightarrow> table list \<Rightarrow> table list" where
  \<comment> \<open>\<open>i\<close> is the position of \<open>table\<close> in \<open>tables\<close>\<close>
  "addForeignKey i referencedTable referencedColumn tables =
     (let fkName = toLowerCase (t_name referencedTable) @ ''_id'';
          tbl = tables ! i
      in if some (\<lambda>c. c_name c = fkName) (t_columns tbl) then tables
         else tables[i := tbl\<lparr> t_columns :=
                t_columns tbl @ [foreignKeyColumn referencedTable referencedColumn] \<rparr>])"

definition setupForeignKeys ::
  "string \<Rightarrow> bool \<Rightarrow> nat \<Rightarrow> nat \<Rightarrow> pk_ref \<Rightarrow> pk_ref \<Rightarrow> table list \<Rightarrow> table list" where
  \<comment> \<open>\<open>ty\<close> is \<open>relationship.type\<close> after the default has been written into it;
      \<open>si\<close> and \<open>ti\<close> are the positions of the source and the target table\<close>
  "setupForeignKeys ty isIdentifying si ti sourceColumn targetColumn tables =
     (let u = toUpperCase ty in
      if u = ''ONE_TO_MANY'' then addForeignKey ti (tables ! si) sourceColumn tables
      else if u = ''MANY_TO_ONE'' then addForeignKey si (tables ! ti) targetColumn tables
      else if u = ''ONE_TO_ONE'' then
        (if isIdentifying then addForeignKey ti (tables ! si) sourceColumn tables
         else addForeignKey ti (tables ! si) sourceColumn tables)
      else if u = ''MANY_TO_MANY'' then tables
      else addForeignKey ti (tables ! si) sourceColumn tables)"

definition getTargetColumnName :: "string \<Rightarrow> bool \<Rightarrow> table \<Rightarrow> table \<Rightarrow> string" where
  "getTargetColumnName ty isIdentifying sourceTable targetTable =
     (let pkName = pk_name (primaryKeyOr \<lparr> pk_name = ''id'', pk_dataType = None \<rparr> targetTable) in
      if ty = ''ONE_TO_MANY'' then toLowerCase (t_name sourceTable) @ ''_id''
      else if ty = ''MANY_TO_ONE'' then pkName
      else if ty = ''ONE_TO_ONE'' then
        (if isIdentifying then toLowerCase (t_name sourceTable) @ ''_id'' else pkName)
      else pkName)"

definition descriptionName :: "string \<Rightarrow> string" where
  \<comment> \<open>the name made from a description in \<open>processRelationshipAttributes\<close>\<close>
  "descriptionName d =
     take 30 (spacesToUnderscore False
       (filter (\<lambda>c. isLower c \<or> isDigit c \<or> c = CHR ''_'' \<or> isSpace c) (toLowerCase d)))"

definition processRelationshipAttribute :: "raw_rel_attribute \<Rightarrow> rel_attribute" where
  "processRelationshipAttribute attr =
     (let name = (if \<not> truthy (xa_name attr) \<and> truthy (xa_description attr)
                  then Some (descriptionName (the (xa_description attr)))
                  else xa_name attr)
      in \<lparr> ra_name = orDefault name ''unnamed_attribute'',
           ra_dataType = Some (orDefault (xa_dataType attr) (inferDataType (orDefault name []))),
           ra_isPrimaryKey = xa_isPrimaryKey attr,
           ra_isForeignKey = xa_isForeignKey attr,
           ra_isNullable = Some (xa_isNullable attr \<noteq> Some False),
           ra_isUnique = xa_isUnique attr,
           ra_isMultiValued = (xa_isMultiValued attr \<or> xa_isMultivalued attr),
           ra_isDerived = xa_isDerived attr,
           ra_description = Some (orDefault (xa_description attr)
                                    (orDefault name ''Unnamed'' @ '' attribute'')) \<rparr>)"

definition participation :: "string option \<Rightarrow> string" where
  "participation p =
     (case p of None \<Rightarrow> ''PARTIAL''
      | Some s \<Rightarrow> if toUpperCase s = ''TOTAL'' then ''TOTAL'' else ''PARTIAL'')"

definition resolveTable :: "string option \<Rightarrow> table list \<Rightarrow> nat option" where
  \<comment> \<open>\<open>tables.find\<close> by name, case-insensitive; the result is the table's position\<close>
  "resolveTable entityName tables =
     findIndex (\<lambda>t. toLowerCase (t_name t) = toLowerCase (transformTableName entityName)) tables"

definition transformRelationship ::
  "raw_relationship \<Rightarrow> table list \<Rightarrow> relationship option \<times> table list" where
  "transformRelationship rel tables =
     (let sourceEntityName = orElse (x_sourceEntity rel) (x_sourceTable rel);
          targetEntityName = orElse (x_targetEntity rel) (x_targetTable rel)
      in
      if \<not> truthy sourceEntityName \<or> \<not> truthy targetEntityName then (None, tables)
      else
        case (resolveTable sourceEntityName tables, resolveTable targetEntityName tables) of
          (Some si, Some ti) \<Rightarrow>
            (let idOnly = \<lparr> pk_name = ''id'', pk_dataType = None \<rparr>;
                 sourceColumn = primaryKeyOr idOnly (tables ! si);
                 targetColumn = primaryKeyOr idOnly (tables ! ti);
                 ty = orDefault (x_type rel) ''ONE_TO_MANY'';
                 tables' = setupForeignKeys ty (x_isIdentifying rel) si ti
                             sourceColumn targetColumn tables;
                 sourceTable = tables' ! si;
                 targetTable = tables' ! ti
             in (Some \<lparr>
                   r_name = Some (orDefault
                     (orElse (x_name rel) (orElse (x_action rel) (x_verb rel)))
                     (if ty = ''ONE_TO_MANY'' then ''has'' else ''relates_to'')),
                   r_sourceTable = Some (t_name sourceTable),
                   r_sourceEntity = sourceEntityName,
                   r_targetTable = Some (t_name targetTable),
                   r_targetEntity = targetEntityName,
                   r_sourceColumn = Some (pk_name sourceColumn),
                   r_targetColumn = Some (getTargetColumnName ty (x_isIdentifying rel)
                                            sourceTable targetTable),
                   r_type = Some ty,
                   r_isIdentifying = x_isIdentifying rel,
                   r_description = Some (orDefault (x_description rel)
                     (''Relationship between '' @ t_name sourceTable @ '' and ''
                        @ t_name targetTable)),
                   r_sourceCardinality =
                     (if truthy (x_sourceCardinality rel) then x_sourceCardinality rel else None),
                   r_targetCardinality =
                     (if truthy (x_targetCardinality rel) then x_targetCardinality rel else None),
                   r_sourceParticipation = Some (participation (x_sourceParticipation rel)),
                   r_targetParticipation = Some (participation (x_targetParticipation rel)),
                   r_attributes = Some (case x_attributes rel of
                                          None \<Rightarrow> []
                                        | Some as \<Rightarrow> map processRelationshipAttribute as),
                   r_cardinality = None \<rparr>, tables'))
        | _ \<Rightarrow> (None, tables))"

fun transformRelationships ::
  "raw_relationship list \<Rightarrow> table list \<Rightarrow> relationship list \<times> table list" where
  \<comment> \<open>\<open>relationships.map(rel => transformRelationship(rel, tables)).filter(Boolean)\<close>\<close>
  "transformRelationships [] tables = ([], tables)"
| "transformRelationships (rel # rels) tables =
     (case transformRelationship rel tables of
        (res, tables') \<Rightarrow>
          (case transformRelationships rels tables' of
             (out, tables'') \<Rightarrow>
               ((case res of None \<Rightarrow> out | Some r \<Rightarrow> r # out), tables'')))"

subsection \<open>Weak entities and lookup tables\<close>

definition weakForeignKeyColumn :: "table \<Rightarrow> pk_ref \<Rightarrow> column" where
  \<comment> \<open>the column created by \<open>processIdentifyingRelationships\<close> when the dependent
      table has no foreign key to its owner yet\<close>
  "weakForeignKeyColumn ownerTable ownerPK =
     \<lparr> c_name = toLowerCase (t_name ownerTable) @ ''_id'',
       c_dataType = pk_dataType ownerPK,
       c_isPrimaryKey = True,
       c_isForeignKey = True,
       c_isNullable = Some False,
       c_isUnique = Some False,
       c_defaultValue = None,
       c_references = Some \<lparr> ref_table = t_name ownerTable,
                               ref_column = pk_name ownerPK,
                               ref_onDelete = Some ''CASCADE'',
                               ref_onUpdate = Some ''CASCADE'' \<rparr>,
       c_isMultivalued = None, c_isDerived = None, c_isComposite = None,
       c_description = Some (''Foreign key reference to '' @ t_name ownerTable
                               @ '' (part of composite primary key for weak entity)'') \<rparr>"

definition partialKeyColumn :: column where
  "partialKeyColumn =
     \<lparr> c_name = ''partial_id'', c_dataType = Some ''INTEGER'', c_isPrimaryKey = True,
       c_isForeignKey = False, c_isNullable = Some False, c_isUnique = Some False,
       c_defaultValue = None, c_references = None, c_isMultivalued = None, c_isDerived = None,
       c_isComposite = None,
       c_description = Some
         ''Partial key for weak entity (forms composite primary key with owner reference)'' \<rparr>"

definition promoteForeignKey :: "table \<Rightarrow> column \<Rightarrow> column" where
  \<comment> \<open>the update of an existing foreign key column of a weak entity\<close>
  "promoteForeignKey ownerTable fkColumn =
     fkColumn\<lparr> c_isPrimaryKey := True,
                c_isNullable := Some False,
                c_description :=
                  (if truthy (c_description fkColumn) then c_description fkColumn
                   else Some (''Foreign key reference to '' @ t_name ownerTable
                                @ '' (part of composite primary key for weak entity)'')) \<rparr>"

definition spliceIn :: "nat \<Rightarrow> 'a \<Rightarrow> 'a list \<Rightarrow> 'a list" where
  \<comment> \<open>\<open>xs.splice(k, 0, x)\<close>\<close>
  "spliceIn k x xs = take k xs @ [x] @ drop k xs"

definition weakEntityColumns :: "table \<Rightarrow> column list \<Rightarrow> column list" where
  "weakEntityColumns ownerTable cols =
     (let fkName = toLowerCase (t_name ownerTable) @ ''_id'';
          cols1 = (case findIndex (\<lambda>c. c_name c = fkName) cols of
                     None \<Rightarrow>
                       weakForeignKeyColumn ownerTable
                         (primaryKeyOr \<lparr> pk_name = ''id'', pk_dataType = Some ''INTEGER'' \<rparr>
                            ownerTable) # cols
                   | Some k \<Rightarrow> cols[k := promoteForeignKey ownerTable (cols ! k)])
      in if find (\<lambda>c. c_isPrimaryKey c \<and> c_name c \<noteq> fkName) cols1 = None then
           (case findIndex (\<lambda>c. c_name c = fkName) cols1 of
              Some fkIndex \<Rightarrow> spliceIn (fkIndex + 1) partialKeyColumn cols1
            | None \<Rightarrow> spliceIn 0 partialKeyColumn cols1)
         else cols1)"

definition identifyingStep :: "table list \<Rightarrow> relationship \<Rightarrow> table list" where
  \<comment> \<open>the body of \<open>identifyingRels.forEach\<close>\<close>
  "identifyingStep tables rel =
     (case (findIndex (\<lambda>t. Some (t_name t) = r_sourceTable rel) tables,
            findIndex (\<lambda>t. Some (t_name t) = r_targetTable rel) tables) of
        (Some oi, Some di) \<Rightarrow>
          (let tables1 = tables[di := (tables ! di)\<lparr> t_isWeakEntity := True \<rparr>];
               ownerTable = tables1 ! oi;
               dependentTable = tables1 ! di
           in tables1[di := dependentTable\<lparr> t_columns :=
                        weakEntityColumns ownerTable (t_columns dependentTable) \<rparr>])
      | _ \<Rightarrow> tables)"

definition processIdentifyingRelationships :: "relationship list \<Rightarrow> table list \<Rightarrow> table list" where
  "processIdentifyingRelationships relationships tables =
     foldl identifyingStep tables (filter r_isIdentifying relationships)"

definition detectLookupTable :: "table \<Rightarrow> table" where
  \<comment> \<open>the body of \<open>tables.forEach\<close> in \<open>detectLookupTables\<close>\<close>
  "detectLookupTable tbl =
     (if t_isLookupTable tbl then tbl
      else
        let hasIdColumn = some c_isPrimaryKey (t_columns tbl);
            hasNameColumn = some (\<lambda>c. toLowerCase (c_name c)
                                  \<in> set [''name'', ''title'', ''label'', ''value'']) (t_columns tbl);
            hasCodeColumn = some (\<lambda>c. toLowerCase (c_name c)
                                  \<in> set [''code'', ''key'', ''shortname'', ''abbreviation''])
                              (t_columns tbl);
            isLookupByName = some (\<lambda>keyword. includesStr (toLowerCase (t_name tbl)) keyword)
                               [''status'', ''type'', ''category'', ''state'', ''priority'', ''role'',
                                ''permission'', ''gender'', ''country'', ''language''];
            nonSystemColumns = filter (\<lambda>c. c_name c \<notin> set [''id'', ''created_at'', ''updated_at''])
                                 (t_columns tbl)
        in if hasIdColumn \<and> (hasNameColumn \<or> hasCodeColumn)
              \<and> (isLookupByName \<or> length nonSystemColumns \<le> 3)
           then tbl\<lparr> t_isLookupTable := True,
                     t_description :=
                       (if \<not> truthy (t_description tbl)
                           \<or> t_description tbl = Some (''Table for '' @ t_name tbl)
                        then Some (''Lookup table for ''
                                     @ map (\<lambda>c. if c = CHR ''_'' then CHR '' '' else c) (t_name tbl)
                                     @ '' values'')
                        else t_description tbl) \<rparr>
           else tbl)"

definition detectLookupTables :: "table list \<Rightarrow> table list" where
  "detectLookupTables tables = map detectLookupTable tables"

subsection \<open>\<open>generateSchema\<close>\<close>

definition generateSchema ::
  "entity list \<Rightarrow> raw_relationship list \<Rightarrow> string option \<Rightarrow> string option \<Rightarrow> schema" where
  \<comment> \<open>the last two arguments are \<open>options.name\<close> and \<open>options.description\<close>\<close>
  "generateSchema entities relationships name description =
     (let tables = map entityTable entities in
      case transformRelationships relationships tables of
        (transformedRelationships, tables1) \<Rightarrow>
          \<lparr> s_name = (case name of None \<Rightarrow> ''New Schema'' | Some n \<Rightarrow> n),
            s_description = (case description of None \<Rightarrow> [] | Some d \<Rightarrow> d),
            s_tables = detectLookupTables
                         (processIdentifyingRelationships transformedRelationships tables1),
            s_relationships = transformedRelationships,
            s_version = 1 \<rparr>)"

section \<open>Inputs of the scenarios\<close>

definition bookEntity :: entity where
  \<comment> \<open>\<open>{name: "Book", attributes: [{name: "title", dataType: "VARCHAR(255)"}]}\<close>\<close>
  "bookEntity = \<lparr> e_name = Some ''Book'',
     e_attributes = [\<lparr> a_name = Some ''title'', a_dataType = Some ''VARCHAR(255)'',
        a_isPrimaryKey = False, a_isForeignKey = False, a_isNullable = None, a_isUnique = False,
        a_defaultValue = None, a_references = None, a_isMultivalued = False, a_isDerived = False,
        a_isComposite = False, a_description = None \<rparr>],
     e_description = None, e_isWeakEntity = False, e_isLookupTable = False \<rparr>"

section \<open>The Mermaid generator\<close>

text \<open>
  The repository holds two copies of the class \<open>MermaidGeneratorService\<close>: the file
  \<open>mermaidGenerator.service.js\<close> of the services (the names below without a suffix) and
  \<open>controllers/export.controller.mermaid.js\<close> (the names ending in \<open>_ctl\<close>).
\<close>

abbreviation dq :: string where
  "dq \<equiv> [CHR 0x22]"

abbreviation nl :: string where
  "nl \<equiv> [CHR 0x0A]"

abbreviation backslash :: string where
  "backslash \<equiv> [CHR 0x5C]"

subsection \<open>Names\<close>

definition nonWordToUnderscore :: "string \<Rightarrow> string" where
  \<comment> \<open>\<open>.replace(/[^\w]/g, '_')\<close>\<close>
  "nonWordToUnderscore s = map (\<lambda>c. if isWordChar c then c else CHR ''_'') s"

fun collapseUnderscores :: "string \<Rightarrow> string" where
  \<comment> \<open>\<open>.replace(/_{2,}/g, '_')\<close>\<close>
  "collapseUnderscores (a # b # cs) =
     (if a = CHR ''_'' \<and> b = CHR ''_'' then collapseUnderscores (b # cs)
      else a # collapseUnderscores (b # cs))"
| "collapseUnderscores cs = cs"

definition sanitizeName_ctl :: "string option \<Rightarrow> string" where
  "sanitizeName_ctl name =
     (if \<not> truthy name then ''unnamed''
      else collapseUnderscores (nonWordToUnderscore (the name)))"

definition reservedKeywords :: "string list" where
  "reservedKeywords =
     [''class'', ''break'', ''case'', ''catch'', ''const'', ''continue'', ''debugger'',
      ''default'', ''delete'', ''do'', ''else'', ''export'', ''extends'', ''finally'',
      ''for'', ''function'', ''if'', ''import'', ''in'', ''instanceof'', ''new'', ''return'',
      ''super'', ''switch'', ''this'', ''throw'', ''try'', ''typeof'', ''var'', ''void'',
      ''while'', ''with'', ''yield'']"

definition splitCapitals :: "string \<Rightarrow> string" where
  \<comment> \<open>every capital becomes an underscore and its lower-case letter, and one leading
      underscore is removed\<close>
  "splitCapitals s =
     (let t = concat (map (\<lambda>c. if isUpper c then [CHR ''_'', lowerChar c] else [c]) s)
      in case t of [] \<Rightarrow> [] | c # cs \<Rightarrow> if c = CHR ''_'' then cs else c # cs)"

definition sanitizeName :: "string option \<Rightarrow> string" where
  "sanitizeName name =
     (if \<not> truthy name then ''unnamed''
      else
        let s1 = nonWordToUnderscore (the name);
            s2 = (if \<exists>c \<in> set s1. isUpper c then splitCapitals s1 else s1)
        in if toLowerCase s2 \<in> set reservedKeywords then s2 @ ''_entity'' else s2)"

subsection \<open>Relationship lines\<close>

definition escapeQuotes :: "string \<Rightarrow> string" where
  \<comment> \<open>\<open>.replace(/"/g, '\\"')\<close>\<close>
  "escapeQuotes s = concat (map (\<lambda>c. if c = CHR 0x22 then backslash @ dq else [c]) s)"

definition generateRelationshipDefinition :: "relationship \<Rightarrow> string" where
  "generateRelationshipDefinition relationship =
     (if \<not> truthy (r_sourceEntity relationship) \<or> \<not> truthy (r_targetEntity relationship) then []
      else
        let sourceEntity = sanitizeName
              (orElse (r_sourceEntity relationship) (r_sourceTable relationship));
            targetEntity = sanitizeName
              (orElse (r_targetEntity relationship) (r_targetTable relationship));
            relationshipName = escapeQuotes (orDefault (r_name relationship) ''relates'');
            sourceEntityLowerCase = toLowerCase sourceEntity;
            targetEntityLowerCase = toLowerCase targetEntity;
            (sourceCardinality, targetCardinality) =
              (case r_cardinality relationship of
                 Some cy \<Rightarrow>
                   ((if card_source cy = Some ''many'' then ''}o''
                     else if card_source cy = Some ''one'' then ''||'' else ''||''),
                    (if card_target cy = Some ''many'' then ''o{''
                     else if card_target cy = Some ''one'' then ''||'' else ''||''))
               | None \<Rightarrow>
                   (if truthy (r_type relationship) then
                      (let ty = the (r_type relationship) in
                       if ty = ''one-to-many'' \<or> ty = ''ONE_TO_MANY'' then (''||'', ''o{'')
                       else if ty = ''many-to-one'' \<or> ty = ''MANY_TO_ONE'' then (''}o'', ''||'')
                       else if ty = ''many-to-many'' \<or> ty = ''MANY_TO_MANY'' then (''}o'', ''o{'')
                       else if ty = ''one-to-one'' \<or> ty = ''ONE_TO_ONE'' then (''||'', ''||'')
                       else (''||'', ''||''))
                    else (''||'', ''||'')))
        in if includesStr (toLowerCase relationshipName) ''message''
              \<and> sourceEntityLowerCase = ''user'' \<and> targetEntityLowerCase = ''message''
              \<and> includesStr (toLowerCase relationshipName) ''receive''
           then ''    '' @ sourceEntityLowerCase @ '' '' @ sourceCardinality @ '' -- ''
                  @ targetCardinality @ '' '' @ targetEntityLowerCase @ '' : '' @ dq
                  @ relationshipName @ dq @ nl
           else ''    '' @ sourceEntityLowerCase @ '' '' @ sourceCardinality @ '' -- ''
                  @ targetCardinality @ '' '' @ targetEntityLowerCase @ '' : '' @ dq
                  @ relationshipName @ dq @ nl)"

definition generateRelationshipDefinition_ctl :: "relationship \<Rightarrow> string" where
  "generateRelationshipDefinition_ctl relationship =
     (if \<not> truthy (r_sourceEntity relationship) \<or> \<not> truthy (r_targetEntity relationship) then []
      else
        let sourceEntity = toLowerCase (sanitizeName_ctl
              (orElse (r_sourceEntity relationship) (r_sourceTable relationship)));
            targetEntity = toLowerCase (sanitizeName_ctl
              (orElse (r_targetEntity relationship) (r_targetTable relationship)));
            relationshipName = orDefault (r_name relationship) ''relates'';
            (sourceCardinality, targetCardinality) =
              (case r_cardinality relationship of
                 Some cy \<Rightarrow>
                   ((if card_source cy = Some ''many'' then ''}o''
                     else if card_source cy = Some ''one'' then ''||''
                     else if card_source cy = Some ''zero-or-one'' then ''|o'' else ''||''),
                    (if card_target cy = Some ''many'' then ''o{''
                     else if card_target cy = Some ''one'' then ''||''
                     else if card_target cy = Some ''zero-or-one'' then ''o|'' else ''||''))
               | None \<Rightarrow>
                   (if truthy (r_type relationship) then
                      (let ty = the (r_type relationship) in
                       if ty = ''one-to-many'' then (''||'', ''o{'')
                       else if ty = ''many-to-one'' then (''}o'', ''||'')
                       else if ty = ''many-to-many'' then (''}o'', ''o{'')
                       else if ty = ''one-to-one'' then (''||'', ''||'')
                       else (''||'', ''||''))
                    else (''||'', ''||'')))
        in ''    '' @ sourceEntity @ '' '' @ sourceCardinality @ ''--'' @ targetCardinality
             @ '' '' @ targetEntity @ '' : '' @ dq @ relationshipName @ dq @ nl)"

definition appendRelationships :: "(relationship \<Rightarrow> string) \<Rightarrow> string \<Rightarrow> relationship list \<Rightarrow> string" where
  \<comment> \<open>the loop \<open>schema.relationships.forEach(r => { mermaidSyntax += gen(r) })\<close> of
      \<open>generateMermaidERD\<close>, started with the text accumulated so far\<close>
  "appendRelationships gen mermaidSyntax relationships =
     foldl (\<lambda>acc r. acc @ gen r) mermaidSyntax relationships"

definition symbolsOfType :: "string \<Rightarrow> string \<times> string" where
  \<comment> \<open>the table of the specification: relationship type, source symbol, target symbol\<close>
  "symbolsOfType ty =
     (if ty = ''ONE_TO_ONE'' then (''||'', ''||'')
      else if ty = ''ONE_TO_MANY'' then (''||'', ''o{'')
      else if ty = ''MANY_TO_ONE'' then (''}o'', ''||'')
      else if ty = ''MANY_TO_MANY'' then (''}o'', ''o{'')
      else (''||'', ''||''))"

section \<open>Further inputs of the scenarios\<close>

definition plainEntity :: "string \<Rightarrow> entity" where
  \<comment> \<open>\<open>{name: n}\<close>\<close>
  "plainEntity n = \<lparr> e_name = Some n, e_attributes = [], e_description = None,
     e_isWeakEntity = False, e_isLookupTable = False \<rparr>"

definition plainRelationship :: "string \<Rightarrow> string \<Rightarrow> string \<Rightarrow> raw_relationship" where
  \<comment> \<open>\<open>{sourceEntity: src, targetEntity: tgt, type: ty}\<close>\<close>
  "plainRelationship src tgt ty =
     \<lparr> x_name = None, x_action = None, x_verb = None,
       x_sourceEntity = Some src, x_sourceTable = None,
       x_targetEntity = Some tgt, x_targetTable = None,
       x_type = Some ty, x_isIdentifying = False, x_description = None,
       x_sourceCardinality = None, x_targetCardinality = None,
       x_sourceParticipation = None, x_targetParticipation = None,
       x_attributes = None \<rparr>"

definition authorBookSchema :: schema where
  \<comment> \<open>the normalized schema of the entities Author and Book with one relationship
      \<open>{sourceEntity: "Author", targetEntity: "Book", type: "ONE_TO_MANY"}\<close>\<close>
  "authorBookSchema =
     generateSchema [plainEntity ''Author'', bookEntity]
       [plainRelationship ''Author'' ''Book'' ''ONE_TO_MANY''] None None"

definition tableOnlyRelationship :: relationship where
  \<comment> \<open>\<open>{name: "writes", sourceTable: "author", targetTable: "book", type: "ONE_TO_MANY"}\<close>\<close>
  "tableOnlyRelationship =
     \<lparr> r_name = Some ''writes'', r_sourceTable = Some ''author'', r_sourceEntity = None,
       r_targetTable = Some ''book'', r_targetEntity = None, r_sourceColumn = None,
       r_targetColumn = None, r_type = Some ''ONE_TO_MANY'', r_isIdentifying = False,
       r_description = None, r_sourceCardinality = None, r_targetCardinality = None,
       r_sourceParticipation = None, r_targetParticipation = None, r_attributes = None,
       r_cardinality = None \<rparr>"

section \<open>The SQL generator (\<open>sqlGenerator.service.js\<close>)\<close>

subsection \<open>Junction tables for many-to-many relationships\<close>

definition isManyToMany :: "relationship \<Rightarrow> bool" where
  "isManyToMany rel = (r_type rel = Some ''MANY_TO_MANY'')"

definition junctionKeyColumn :: "table \<Rightarrow> pk_ref \<Rightarrow> column" where
  \<comment> \<open>one of the two foreign key columns of a junction table\<close>
  "junctionKeyColumn tbl pk =
     \<lparr> c_name = t_name tbl @ ''_'' @ pk_name pk,
       c_dataType = pk_dataType pk,
       c_isPrimaryKey = True,
       c_isForeignKey = True,
       c_isNullable = Some False,
       c_isUnique = Some False,
       c_defaultValue = None,
       c_references = Some \<lparr> ref_table = t_name tbl, ref_column = pk_name pk,
                               ref_onDelete = Some ''CASCADE'', ref_onUpdate = Some ''CASCADE'' \<rparr>,
       c_isMultivalued = None, c_isDerived = None, c_isComposite = None,
       c_description = Some (''Foreign key reference to '' @ t_name tbl) \<rparr>"

definition junctionAttributeColumn :: "rel_attribute \<Rightarrow> column" where
  "junctionAttributeColumn attr =
     \<lparr> c_name = ra_name attr,
       c_dataType = Some (orDefault (ra_dataType attr) ''VARCHAR(255)''),
       c_isPrimaryKey = False,
       c_isForeignKey = False,
       c_isNullable = Some (ra_isNullable attr \<noteq> Some False),
       c_isUnique = Some (ra_isUnique attr),
       c_defaultValue = None, c_references = None,
       c_isMultivalued = None, c_isDerived = None, c_isComposite = None,
       c_description = Some (orDefault (ra_description attr) (ra_name attr @ '' attribute'')) \<rparr>"

definition integerId :: pk_ref where
  \<comment> \<open>\<open>{ name: 'id', dataType: 'INTEGER' }\<close>\<close>
  "integerId = \<lparr> pk_name = ''id'', pk_dataType = Some ''INTEGER'' \<rparr>"

definition junctionTable :: "table \<Rightarrow> table \<Rightarrow> relationship \<Rightarrow> table" where
  "junctionTable sourceTable targetTable relationship =
     \<lparr> t_name = t_name sourceTable @ ''_'' @ t_name targetTable,
       t_columns =
         [junctionKeyColumn sourceTable (primaryKeyOr integerId sourceTable),
          junctionKeyColumn targetTable (primaryKeyOr integerId targetTable)]
         @ map junctionAttributeColumn
             (case r_attributes relationship of None \<Rightarrow> [] | Some as \<Rightarrow> as)
         @ [createdAtColumn, updatedAtColumn],
       t_description = Some (''Junction table for many-to-many relationship between ''
                               @ t_name sourceTable @ '' and '' @ t_name targetTable),
       t_isWeakEntity = False,
       t_isLookupTable = False,
       t_isJunctionTable = True \<rparr>"

definition sourceToJunction :: "table \<Rightarrow> table \<Rightarrow> relationship \<Rightarrow> relationship" where
  "sourceToJunction sourceTable targetTable relationship =
     \<lparr> r_name = Some (str_of (r_name relationship) @ ''_source''),
       r_sourceTable = Some (t_name sourceTable),
       r_sourceEntity = r_sourceEntity relationship,
       r_targetTable = Some (t_name sourceTable @ ''_'' @ t_name targetTable),
       r_targetEntity = Some (t_name sourceTable @ ''_'' @ t_name targetTable),
       r_sourceColumn = Some (pk_name (primaryKeyOr integerId sourceTable)),
       r_targetColumn = Some (t_name sourceTable @ ''_''
                                @ pk_name (primaryKeyOr integerId sourceTable)),
       r_type = Some ''ONE_TO_MANY'',
       r_isIdentifying = True,
       r_description = Some (''One-to-many relationship from '' @ t_name sourceTable
                               @ '' to junction table''),
       r_sourceCardinality = Some ''1..1'',
       r_targetCardinality = Some ''0..*'',
       r_sourceParticipation = Some ''PARTIAL'',
       r_targetParticipation = Some ''TOTAL'',
       r_attributes = None,
       r_cardinality = None \<rparr>"

definition targetToJunction :: "table \<Rightarrow> table \<Rightarrow> relationship \<Rightarrow> relationship" where
  "targetToJunction sourceTable targetTable relationship =
     \<lparr> r_name = Some (str_of (r_name relationship) @ ''_target''),
       r_sourceTable = Some (t_name targetTable),
       r_sourceEntity = r_targetEntity relationship,
       r_targetTable = Some (t_name sourceTable @ ''_'' @ t_name targetTable),
       r_targetEntity = Some (t_name sourceTable @ ''_'' @ t_name targetTable),
       r_sourceColumn = Some (pk_name (primaryKeyOr integerId targetTable)),
       r_targetColumn = Some (t_name targetTable @ ''_''
                                @ pk_name (primaryKeyOr integerId targetTable)),
       r_type = Some ''ONE_TO_MANY'',
       r_isIdentifying = True,
       r_description = Some (''One-to-many relationship from '' @ t_name targetTable
                               @ '' to junction table''),
       r_sourceCardinality = Some ''1..1'',
       r_targetCardinality = Some ''0..*'',
       r_sourceParticipation = Some ''PARTIAL'',
       r_targetParticipation = Some ''TOTAL'',
       r_attributes = None,
       r_cardinality = None \<rparr>"

definition sameEndpoints :: "relationship \<Rightarrow> relationship \<Rightarrow> bool" where
  \<comment> \<open>the predicate of the \<open>findIndex\<close> that looks for the original relationship\<close>
  "sameEndpoints relationship rel =
     (r_sourceTable rel = r_sourceTable relationship
      \<and> r_targetTable rel = r_targetTable relationship
      \<and> r_type rel = Some ''MANY_TO_MANY'')"

definition junctionStep ::
  "table list \<times> relationship list \<Rightarrow> relationship \<Rightarrow> table list \<times> relationship list" where
  \<comment> \<open>the body of \<open>manyToManyRelationships.forEach\<close>, on the two arrays of the copy\<close>
  "junctionStep arrays relationship =
     (case arrays of (tables, relationships) \<Rightarrow>
        (case (find (\<lambda>t. Some (t_name t) = r_sourceTable relationship) tables,
               find (\<lambda>t. Some (t_name t) = r_targetTable relationship) tables) of
           (Some sourceTable, Some targetTable) \<Rightarrow>
             if some (\<lambda>t. t_name t = t_name sourceTable @ ''_'' @ t_name targetTable) tables
             then (tables, relationships)
             else
               (tables @ [junctionTable sourceTable targetTable relationship],
                (case findIndex (sameEndpoints relationship) relationships of
                   Some relIndex \<Rightarrow>
                     take relIndex relationships
                       @ [sourceToJunction sourceTable targetTable relationship,
                          targetToJunction sourceTable targetTable relationship]
                       @ drop (Suc relIndex) relationships
                 | None \<Rightarrow>
                     relationships
                       @ [sourceToJunction sourceTable targetTable relationship,
                          targetToJunction sourceTable targetTable relationship]))
         | _ \<Rightarrow> (tables, relationships)))"

text \<open>
  \<open>preprocessSchema\<close> as a function on schema values: the value of the copy when the
  function returns. \<open>JSON.parse(JSON.stringify(schema))\<close> drops absent properties and
  keeps every string and boolean, so the copy starts with the value of the original.
\<close>

definition preprocessSchema :: "schema \<Rightarrow> schema" where
  "preprocessSchema schema =
     (case foldl junctionStep (s_tables schema, s_relationships schema)
             (filter isManyToMany (s_relationships schema)) of
        (tables, relationships) \<Rightarrow>
          schema\<lparr> s_tables := tables, s_relationships := relationships \<rparr>)"


subsection \<open>The store: the schema object and its two arrays\<close>

text \<open>
  \<open>preprocessSchema\<close> pushes onto \<open>processedSchema.tables\<close> and splices
  \<open>processedSchema.relationships\<close>. To say which objects these writes reach, the schema
  object and its two arrays are cells of a store; the tables, columns and relationships
  inside the arrays are never written by the SQL generator and stay values.
\<close>

type_synonym addr = nat

datatype cell =
    SchemaCell string string addr addr nat
      \<comment> \<open>name, description, the array \<open>tables\<close>, the array \<open>relationships\<close>, version\<close>
  | TablesCell "table list"
  | RelationshipsCell "relationship list"

record store =
  st_cells :: "addr \<Rightarrow> cell option"
  st_next :: addr

definition allocate :: "cell \<Rightarrow> store \<Rightarrow> addr \<times> store" where
  "allocate c h =
     (st_next h, h\<lparr> st_cells := (st_cells h)(st_next h \<mapsto> c), st_next := Suc (st_next h) \<rparr>)"

definition readSchema :: "store \<Rightarrow> addr \<Rightarrow> schema option" where
  \<comment> \<open>the value of the schema object at an address\<close>
  "readSchema h a =
     (case st_cells h a of
        Some (SchemaCell name description ta ra version) \<Rightarrow>
          (case (st_cells h ta, st_cells h ra) of
             (Some (TablesCell tables), Some (RelationshipsCell relationships)) \<Rightarrow>
               Some \<lparr> s_name = name, s_description = description, s_tables = tables,
                      s_relationships = relationships, s_version = version \<rparr>
           | _ \<Rightarrow> None)
      | _ \<Rightarrow> None)"

definition deepCopy :: "store \<Rightarrow> addr \<Rightarrow> (addr \<times> store) option" where
  \<comment> \<open>\<open>JSON.parse(JSON.stringify(schema))\<close>: a new schema object with two new arrays\<close>
  "deepCopy h a =
     (case readSchema h a of
        None \<Rightarrow> None
      | Some schema \<Rightarrow>
          (case allocate (TablesCell (s_tables schema)) h of
             (ta, h1) \<Rightarrow>
               (case allocate (RelationshipsCell (s_relationships schema)) h1 of
                  (ra, h2) \<Rightarrow>
                    Some (allocate (SchemaCell (s_name schema) (s_description schema) ta ra
                                      (s_version schema)) h2))))"

definition junctionStep_st :: "addr \<Rightarrow> store \<Rightarrow> relationship \<Rightarrow> store" where
  \<comment> \<open>one round of the \<open>forEach\<close>: it reads and writes \<open>processedSchema.tables\<close> and
      \<open>processedSchema.relationships\<close> through the object \<open>processedSchema\<close> at \<open>p\<close>\<close>
  "junctionStep_st p h relationship =
     (case st_cells h p of
        Some (SchemaCell name description ta ra version) \<Rightarrow>
          (case (st_cells h ta, st_cells h ra) of
             (Some (TablesCell tables), Some (RelationshipsCell relationships)) \<Rightarrow>
               (case junctionStep (tables, relationships) relationship of
                  (tables', relationships') \<Rightarrow>
                    h\<lparr> st_cells := ((st_cells h)(ta \<mapsto> TablesCell tables'))
                                       (ra \<mapsto> RelationshipsCell relationships') \<rparr>)
           | _ \<Rightarrow> h)
      | _ \<Rightarrow> h)"

definition preprocessSchema_st :: "store \<Rightarrow> addr \<Rightarrow> (addr \<times> store) option" where
  \<comment> \<open>\<open>preprocessSchema\<close> on the store; \<open>None\<close> when \<open>schema\<close> is not a schema object\<close>
  "preprocessSchema_st h schema =
     (case deepCopy h schema of
        None \<Rightarrow> None
      | Some (processedSchema, h1) \<Rightarrow>
          (case readSchema h1 processedSchema of
             None \<Rightarrow> None
           | Some copy \<Rightarrow>
               Some (processedSchema,
                     foldl (junctionStep_st processedSchema) h1
                       (filter isManyToMany (s_relationships copy)))))"

subsection \<open>Dialect backends\<close>

text \<open>
  The four modules \<open>dialects/*.generator.js\<close> and the library \<open>sql-formatter\<close> are not
  part of the sources at hand. \<open>generateSQL\<close> takes them as parameters: a backend is a
  record of functions from schema values to text, with the optional capabilities as
  \<open>option\<close>s, and the formatter returns \<open>None\<close> where it raises.
\<close>

record fk_constraint =
  fk_columnName :: string
  fk_referenceTable :: string
  fk_referenceColumn :: string
  fk_onDelete :: string
  fk_onUpdate :: string
  fk_constraintName :: string

record generator =
  headerComment :: "schema \<Rightarrow> string"
  generateDropStatements :: "(schema \<Rightarrow> string list) option"
  generateEnumTypes :: "(schema \<Rightarrow> string list) option"
  createTableStatement :: "table \<Rightarrow> schema \<Rightarrow> string"
  addForeignKeyStatement :: "string \<Rightarrow> fk_constraint \<Rightarrow> string"
  createIndexStatements :: "table \<Rightarrow> schema \<Rightarrow> string list"
  createViewStatements :: "(schema \<Rightarrow> string list) option"
  createStoredProcedures :: "(schema \<Rightarrow> string list) option"
  createTriggerStatements :: "(schema \<Rightarrow> string list) option"
  generateSeedData :: "(table \<Rightarrow> string list) option"
  footerComment :: "(schema \<Rightarrow> string) option"

datatype backend = MySQL | PostgreSQL | SQLite | SQLServer

datatype property =
    Backend backend
      \<comment> \<open>an own property of the object \<open>generators\<close>\<close>
  | Inherited string
      \<comment> \<open>a property that \<open>generators\<close> inherits from \<open>Object.prototype\<close>\<close>

definition objectPrototypeKeys :: "string list" where
  \<comment> \<open>the property names of \<open>Object.prototype\<close>; every one of them holds a function,
      but \<open>__proto__\<close>, which yields \<open>Object.prototype\<close> itself\<close>
  "objectPrototypeKeys =
     [''constructor'', ''hasOwnProperty'', ''isPrototypeOf'', ''propertyIsEnumerable'',
      ''toLocaleString'', ''toString'', ''valueOf'', ''__defineGetter__'', ''__defineSetter__'',
      ''__lookupGetter__'', ''__lookupSetter__'', ''__proto__'']"

definition generatorsLookup :: "string \<Rightarrow> property option" where
  \<comment> \<open>\<open>generators[key]\<close> for the object literal with the keys \<open>mysql\<close>, \<open>postgresql\<close>,
      \<open>sqlite\<close> and \<open>sqlserver\<close>: own properties first, then the prototype\<close>
  "generatorsLookup key =
     (if key = ''mysql'' then Some (Backend MySQL)
      else if key = ''postgresql'' then Some (Backend PostgreSQL)
      else if key = ''sqlite'' then Some (Backend SQLite)
      else if key = ''sqlserver'' then Some (Backend SQLServer)
      else if key \<in> set objectPrototypeKeys then Some (Inherited key)
      else None)"

definition getDialectGenerator :: "string \<Rightarrow> property" where
  \<comment> \<open>\<open>generators[normalizedDialect] || generators.mysql\<close>; every property found is truthy\<close>
  "getDialectGenerator dialect =
     (case generatorsLookup (toLowerCase dialect) of
        Some g \<Rightarrow> g
      | None \<Rightarrow> Backend MySQL)"

definition getForeignKeyConstraints :: "table \<Rightarrow> schema \<Rightarrow> fk_constraint list" where
  "getForeignKeyConstraints tbl schema =
     map (\<lambda>column.
            \<lparr> fk_columnName = c_name column,
              fk_referenceTable = ref_table (the (c_references column)),
              fk_referenceColumn = ref_column (the (c_references column)),
              fk_onDelete = orDefault (ref_onDelete (the (c_references column))) ''NO ACTION'',
              fk_onUpdate = orDefault (ref_onUpdate (the (c_references column))) ''NO ACTION'',
              fk_constraintName = ''fk_'' @ t_name tbl @ ''_'' @ c_name column \<rparr>)
         (filter (\<lambda>column. c_isForeignKey column \<and> c_references column \<noteq> None) (t_columns tbl))"

fun joinWith :: "string \<Rightarrow> string list \<Rightarrow> string" where
  \<comment> \<open>\<open>Array.prototype.join\<close>\<close>
  "joinWith sep [] = []"
| "joinWith sep [x] = x"
| "joinWith sep (x # y # ys) = x @ sep @ joinWith sep (y # ys)"

definition optionalStatements :: "(schema \<Rightarrow> string list) option \<Rightarrow> schema \<Rightarrow> string list" where
  \<comment> \<open>\<open>if (generator.f) statements.push(...generator.f(processedSchema))\<close>\<close>
  "optionalStatements f schema = (case f of None \<Rightarrow> [] | Some g \<Rightarrow> g schema)"

definition sqlStatements :: "generator \<Rightarrow> string \<Rightarrow> schema \<Rightarrow> schema \<Rightarrow> string list" where
  \<comment> \<open>the array \<open>statements\<close> when \<open>generateSQL\<close> joins it\<close>
  "sqlStatements g dialect schema processedSchema =
     [headerComment g schema]
     @ optionalStatements (generateDropStatements g) processedSchema
     @ (if dialect = ''postgresql'' then optionalStatements (generateEnumTypes g) processedSchema
        else [])
     @ map (\<lambda>tbl. createTableStatement g tbl processedSchema) (s_tables processedSchema)
     @ (if dialect = ''sqlserver'' \<or> dialect = ''sqlite'' then
          concat (map (\<lambda>tbl. map (addForeignKeyStatement g (t_name tbl))
                               (getForeignKeyConstraints tbl processedSchema))
                    (s_tables processedSchema))
        else [])
     @ concat (map (\<lambda>tbl. createIndexStatements g tbl processedSchema) (s_tables processedSchema))
     @ optionalStatements (createViewStatements g) processedSchema
     @ optionalStatements (createStoredProcedures g) processedSchema
     @ optionalStatements (createTriggerStatements g) processedSchema
     @ concat (map (\<lambda>tbl. case generateSeedData g of None \<Rightarrow> [] | Some f \<Rightarrow> f tbl)
                 (filter t_isLookupTable (s_tables processedSchema)))
     @ (case footerComment g of None \<Rightarrow> [] | Some f \<Rightarrow> [f processedSchema])"

datatype sql_error = FailedToGenerateSQL string

definition generateSQL ::
  "(backend \<Rightarrow> generator) \<Rightarrow> (string \<Rightarrow> string \<Rightarrow> string option)
     \<Rightarrow> store \<Rightarrow> addr \<Rightarrow> string \<Rightarrow> (sql_error + string) \<times> store" where
  \<comment> \<open>\<open>generateSQL(schema, dialect)\<close> with the backends \<open>gens\<close> and the formatter \<open>fmt\<close>;
      the result is the script or the error raised, and the store after the call\<close>
  "generateSQL gens fmt h schema dialect =
     (case readSchema h schema of
        None \<Rightarrow> (Inl (FailedToGenerateSQL ''schema is not a schema object''), h)
      | Some original \<Rightarrow>
          (case getDialectGenerator dialect of
             Inherited key \<Rightarrow>
               (Inl (FailedToGenerateSQL ''generator.headerComment is not a function''), h)
           | Backend b \<Rightarrow>
               (case preprocessSchema_st h schema of
                  None \<Rightarrow> (Inl (FailedToGenerateSQL ''schema is not a schema object''), h)
                | Some (processedSchema, h') \<Rightarrow>
                    (case readSchema h' processedSchema of
                       None \<Rightarrow> (Inl (FailedToGenerateSQL ''schema is not a schema object''), h')
                     | Some processed \<Rightarrow>
                         (let joinedSql = joinWith (nl @ nl)
                                (sqlStatements (gens b) dialect original processed);
                              formatterDialect =
                                (if toLowerCase dialect = ''sqlserver'' then ''tsql'' else dialect)
                          in (Inr (case fmt joinedSql formatterDialect of
                                     Some sql \<Rightarrow> sql
                                   | None \<Rightarrow> joinedSql), h'))))))"

section \<open>Inputs of the SQL scenarios\<close>

definition studentCourseSchema :: schema where
  \<comment> \<open>the normalized schema of the entities Student and Course with one relationship
      \<open>{sourceEntity: "Student", targetEntity: "Course", type: "MANY_TO_MANY"}\<close>\<close>
  "studentCourseSchema =
     generateSchema [plainEntity ''Student'', plainEntity ''Course'']
       [plainRelationship ''Student'' ''Course'' ''MANY_TO_MANY''] None None"

definition storeOf :: "schema \<Rightarrow> store" where
  \<comment> \<open>a store that holds one schema object, at address 2, and its two arrays\<close>
  "storeOf schema =
     \<lparr> st_cells = (Map.empty
          (0 \<mapsto> TablesCell (s_tables schema)))
          (1 \<mapsto> RelationshipsCell (s_relationships schema),
           2 \<mapsto> SchemaCell (s_name schema) (s_description schema) 0 1 (s_version schema)),
       st_next = 3 \<rparr>"

definition sampleGenerator :: generator where
  \<comment> \<open>a backend that writes one line for the schema and one for each table\<close>
  "sampleGenerator =
     \<lparr> headerComment = (\<lambda>schema. ''-- '' @ s_name schema),
       generateDropStatements = None,
       generateEnumTypes = None,
       createTableStatement = (\<lambda>tbl schema. ''CREATE TABLE '' @ t_name tbl),
       addForeignKeyStatement = (\<lambda>name fk. ''ALTER TABLE '' @ name),
       createIndexStatements = (\<lambda>tbl schema. []),
       createViewStatements = None,
       createStoredProcedures = None,
       createTriggerStatements = None,
       generateSeedData = None,
       footerComment = None \<rparr>"

definition backendName :: "backend \<Rightarrow> string" where
  "backendName b =
     (case b of MySQL \<Rightarrow> ''mysql'' | PostgreSQL \<Rightarrow> ''postgresql''
      | SQLite \<Rightarrow> ''sqlite'' | SQLServer \<Rightarrow> ''sqlserver'')"

definition sampleBackends :: "backend \<Rightarrow> generator" where
  \<comment> \<open>four backends that differ in the header they write\<close>
  "sampleBackends b =
     sampleGenerator\<lparr> headerComment := (\<lambda>schema. ''-- '' @ backendName b @ '' script'') \<rparr>"





section \<open>Measures used in the statements\<close>





section \<open>The documentation generator (\<open>documentationGenerator.service.js\<close>)\<close>












subsection \<open>Markdown\<close>












subsection \<open>HTML\<close>









subsection \<open>The facts of a document, and the two renderings of them\<close>

































section \<open>The Mermaid auto-formatter\<close>

subsection \<open>Regular expressions\<close>

text \<open>
  The regular expressions of the formatter, as far as it uses them. \<open>matchesOf r s\<close> lists
  the ways in which \<open>r\<close> matches a prefix of \<open>s\<close>, in the order in which the backtracking
  matcher of JavaScript tries them (a quantifier is greedy, an alternative is tried from
  the left): each with the rest of the input and the texts of the capturing groups. The
  first of them is the match that \<open>exec\<close> finds at this position.
\<close>

datatype rx =
    Chr "char \<Rightarrow> bool"
  | Lit string
  | Seq rx rx
  | Alt rx rx
  | Opt rx
  | Star rx
  | Group rx
  | End
  | EndOfLine

abbreviation Plus :: "rx \<Rightarrow> rx" where
  "Plus r \<equiv> Seq r (Star r)"

fun seq :: "rx list \<Rightarrow> rx" where
  "seq [] = Lit []"
| "seq [r] = r"
| "seq (r # rs) = Seq r (seq rs)"

function matchesOf :: "rx \<Rightarrow> string \<Rightarrow> (string \<times> string list) list" where
  "matchesOf (Chr p) s = (case s of [] \<Rightarrow> [] | c # cs \<Rightarrow> if p c then [(cs, [])] else [])"
| "matchesOf (Lit t) s = (if startsWith s t then [(drop (length t) s, [])] else [])"
| "matchesOf (Seq a b) s =
     concat (map (\<lambda>m. map (\<lambda>n. (fst n, snd m @ snd n)) (matchesOf b (fst m))) (matchesOf a s))"
| "matchesOf (Alt a b) s = matchesOf a s @ matchesOf b s"
| "matchesOf (Opt a) s = matchesOf a s @ [(s, [])]"
| "matchesOf (Star a) s =
     concat (map (\<lambda>m. if length (fst m) < length s then matchesOf (Star a) (fst m) else [])
               (matchesOf a s))
     @ [(s, [])]"
| "matchesOf (Group a) s =
     map (\<lambda>m. (fst m, take (length s - length (fst m)) s # snd m)) (matchesOf a s)"
| "matchesOf End s = (if s = [] then [(s, [])] else [])"
| "matchesOf EndOfLine s =
     (if s = [] \<or> hd s = CHR 0x0A \<or> hd s = CHR 0x0D then [(s, [])] else [])"
  by pat_completeness auto

termination
  by (relation "measure size <*lex*> measure length") auto

definition exec :: "rx \<Rightarrow> string \<Rightarrow> (string \<times> string list) option" where
  "exec r s = (case matchesOf r s of [] \<Rightarrow> None | m # ms \<Rightarrow> Some m)"

definition testAtStart :: "rx \<Rightarrow> string \<Rightarrow> bool" where
  \<comment> \<open>\<open>/^r/.test(s)\<close>\<close>
  "testAtStart r s = (exec r s \<noteq> None)"


datatype piece = Text string | Ref nat

fun fill :: "piece list \<Rightarrow> string list \<Rightarrow> string" where
  \<comment> \<open>the replacement text: \<open>Ref n\<close> is \<open>$n\<close>\<close>
  "fill [] groups = []"
| "fill (Text t # ps) groups = t @ fill ps groups"
| "fill (Ref n # ps) groups = groups ! (n - 1) @ fill ps groups"

function replaceAll :: "rx \<Rightarrow> piece list \<Rightarrow> string \<Rightarrow> string" where
  \<comment> \<open>\<open>s.replace(/r/g, replacement)\<close>: the matches are found from the left and do not overlap\<close>
  "replaceAll r replacement s =
     (case exec r s of
        None \<Rightarrow> (case s of [] \<Rightarrow> [] | c # cs \<Rightarrow> c # replaceAll r replacement cs)
      | Some m \<Rightarrow>
          if length (fst m) < length s then
            fill replacement (snd m) @ replaceAll r replacement (fst m)
          else
            fill replacement (snd m)
            @ (case s of [] \<Rightarrow> [] | c # cs \<Rightarrow> c # replaceAll r replacement cs))"
  by pat_completeness auto

termination
  by (relation "measure (\<lambda>(r, replacement, s). length s)") auto

declare replaceAll.simps [simp del]

definition trim :: "string \<Rightarrow> string" where
  "trim s = rev (dropWhile isSpace (rev (dropWhile isSpace s)))"

fun splitLines :: "string \<Rightarrow> string list" where
  \<comment> \<open>\<open>s.split('\n')\<close>\<close>
  "splitLines [] = [[]]"
| "splitLines (c # cs) =
     (if c = CHR 0x0A then [] # splitLines cs
      else (case splitLines cs of [] \<Rightarrow> [[c]] | l # ls \<Rightarrow> (c # l) # ls))"

abbreviation wordChars :: rx where
  "wordChars \<equiv> Plus (Chr isWordChar)"

abbreviation spaces :: rx where
  "spaces \<equiv> Plus (Chr isSpace)"

abbreviation optionalSpaces :: rx where
  "optionalSpaces \<equiv> Star (Chr isSpace)"

subsection \<open>The copy of the controllers\<close>

definition requiredKeyword :: rx where
  \<comment> \<open>\<open>/\s+required/g\<close>\<close>
  "requiredKeyword = seq [spaces, Lit ''required'']"

definition closingBrace_ctl :: rx where
  \<comment> \<open>\<open>/(\w+\s+\w+\s*(?:PK|FK)?\s*)\s*}(\w+)/g\<close>\<close>
  "closingBrace_ctl =
     seq [Group (seq [wordChars, spaces, wordChars, optionalSpaces,
                      Opt (Alt (Lit ''PK'') (Lit ''FK'')), optionalSpaces]),
          optionalSpaces, Lit ''}'', Group wordChars]"

definition entityBlocks :: rx where
  \<comment> \<open>\<open>/}\s*(\w+)\s*{/g\<close>\<close>
  "entityBlocks = seq [Lit ''}'', optionalSpaces, Group wordChars, optionalSpaces, Lit ''{'']"

definition entityHeader_ctl :: rx where
  \<comment> \<open>\<open>/^\w+\s*{$/\<close>\<close>
  "entityHeader_ctl = seq [wordChars, optionalSpaces, Lit ''{'', End]"

definition attributeLine_ctl :: rx where
  \<comment> \<open>\<open>/^\w+\s+\w+/\<close>\<close>
  "attributeLine_ctl = seq [wordChars, spaces, wordChars]"

definition separateBlocks_ctl :: "string \<Rightarrow> string" where
  \<comment> \<open>the three replacements on the whole text\<close>
  "separateBlocks_ctl mermaidSyntax =
     (let formatted = replaceAll requiredKeyword [] mermaidSyntax;
          formatted = replaceAll closingBrace_ctl
                        [Ref 1, Text (nl @ ''    }'' @ nl @ nl @ ''    ''), Ref 2] formatted
      in replaceAll entityBlocks [Text (''}'' @ nl @ nl @ ''    ''), Ref 1, Text '' {''] formatted)"

definition formatLine_ctl :: "string \<Rightarrow> string" where
  \<comment> \<open>the body of the loop over the lines\<close>
  "formatLine_ctl line =
     (let trimmed = trim line in
      if trimmed = [] then []
      else if trimmed = ''erDiagram'' then trimmed
      else if testAtStart entityHeader_ctl trimmed then ''    '' @ trimmed
      else if trimmed = ''}'' then ''    }''
      else if testAtStart attributeLine_ctl trimmed \<and> \<not> includesStr trimmed ''--'' then
        ''        '' @ replaceAll requiredKeyword [] trimmed
      else if includesStr trimmed ''--'' then ''    '' @ trimmed
      else if startsWith trimmed ''%%'' then ''    '' @ trimmed
      else line)"

definition autoFormatMermaidSyntax_ctl :: "string \<Rightarrow> string" where
  "autoFormatMermaidSyntax_ctl mermaidSyntax =
     (if mermaidSyntax = [] then mermaidSyntax
      else joinWith nl (map formatLine_ctl (splitLines (separateBlocks_ctl mermaidSyntax))))"

subsection \<open>The copy of the services\<close>


definition operator :: rx where
  \<comment> \<open>\<open>(\|\||\}o|o\{)\<close>\<close>
  "operator = Group (Alt (Lit ''||'') (Alt (Lit ''}o'') (Lit ''o{'')))"

definition emDash :: string where
  \<comment> \<open>the character U+2014, in UTF-8\<close>
  "emDash = [CHR 0xE2, CHR 0x80, CHR 0x94]"

definition spaceOperators :: "string \<Rightarrow> string" where
  \<comment> \<open>the three replacements that put spaces around the operator of a relationship\<close>
  "spaceOperators s =
     (let s = replaceAll (seq [operator, Lit ''--'', operator]) [Ref 1, Text '' -- '', Ref 2] s;
          s = replaceAll (seq [operator, Lit ''-'', operator]) [Ref 1, Text '' -- '', Ref 2] s
      in replaceAll (seq [operator, Lit emDash, operator]) [Ref 1, Text '' -- '', Ref 2] s)"












subsection \<open>Text in which the loop over the lines finds nothing to replace\<close>

definition nothingToClean_ctl :: "string \<Rightarrow> bool" where
  \<comment> \<open>no line holds a \<open>required\<close> that the loop of the controllers' copy would remove\<close>
  "nothingToClean_ctl text =
     list_all (\<lambda>line. replaceAll requiredKeyword [] (trim line) = trim line) (splitLines text)"


subsection \<open>Two texts\<close>



section \<open>The normalizer on a single entity\<close>

lemma entityTable_book:
  "entityTable bookEntity =
     \<lparr> t_name = ''book'',
       t_columns =
         [\<lparr> c_name = ''id'', c_dataType = Some ''INTEGER'', c_isPrimaryKey = True,
            c_isForeignKey = False, c_isNullable = Some False, c_isUnique = Some True,
            c_defaultValue = None, c_references = None, c_isMultivalued = None,
            c_isDerived = None, c_isComposite = None, c_description = Some ''Primary key'' \<rparr>,
          \<lparr> c_name = ''title'', c_dataType = Some ''VARCHAR(255)'', c_isPrimaryKey = False,
            c_isForeignKey = False, c_isNullable = Some True, c_isUnique = Some False,
            c_defaultValue = None, c_references = None, c_isMultivalued = Some False,
            c_isDerived = Some False, c_isComposite = Some False,
            c_description = Some ''title column'' \<rparr>,
          \<lparr> c_name = ''created_at'', c_dataType = Some ''TIMESTAMP'', c_isPrimaryKey = False,
            c_isForeignKey = False, c_isNullable = Some False, c_isUnique = None,
            c_defaultValue = Some ''CURRENT_TIMESTAMP'', c_references = None,
            c_isMultivalued = None, c_isDerived = None, c_isComposite = None,
            c_description = Some ''Creation timestamp'' \<rparr>,
          \<lparr> c_name = ''updated_at'', c_dataType = Some ''TIMESTAMP'', c_isPrimaryKey = False,
            c_isForeignKey = False, c_isNullable = Some False, c_isUnique = None,
            c_defaultValue = Some ''CURRENT_TIMESTAMP'', c_references = None,
            c_isMultivalued = None, c_isDerived = None, c_isComposite = None,
            c_description = Some ''Last update timestamp'' \<rparr>],
       t_description = Some ''Table for Book'', t_isWeakEntity = False,
       t_isLookupTable = False, t_isJunctionTable = False \<rparr>"
  by code_simp

lemma detectLookupTable_book:
  "detectLookupTable (entityTable bookEntity) = (entityTable bookEntity)\<lparr> t_isLookupTable := True \<rparr>"
  unfolding entityTable_book by code_simp

text \<open>
  C4. Normalizing the single entity \<open>Book\<close> with the one attribute \<open>title\<close> of type
  \<open>VARCHAR(255)\<close> and no relationships, under any options, yields exactly one table. It is
  named \<open>book\<close> and its columns are, in this order, \<open>id\<close> (\<open>INTEGER\<close>, primary key),
  \<open>title\<close> (\<open>VARCHAR(255)\<close>), \<open>created_at\<close> and \<open>updated_at\<close> (both \<open>TIMESTAMP\<close> with the
  default \<open>CURRENT_TIMESTAMP\<close>). The lookup-table heuristic then flags the table, since it
  has a \<open>title\<close> column and a single non-system column.
\<close>

theorem book_scenario_table:
  "s_tables (generateSchema [bookEntity] [] name description) =
     [\<lparr> t_name = ''book'',
        t_columns =
          [\<lparr> c_name = ''id'', c_dataType = Some ''INTEGER'', c_isPrimaryKey = True,
             c_isForeignKey = False, c_isNullable = Some False, c_isUnique = Some True,
             c_defaultValue = None, c_references = None, c_isMultivalued = None,
             c_isDerived = None, c_isComposite = None, c_description = Some ''Primary key'' \<rparr>,
           \<lparr> c_name = ''title'', c_dataType = Some ''VARCHAR(255)'', c_isPrimaryKey = False,
             c_isForeignKey = False, c_isNullable = Some True, c_isUnique = Some False,
             c_defaultValue = None, c_references = None, c_isMultivalued = Some False,
             c_isDerived = Some False, c_isComposite = Some False,
             c_description = Some ''title column'' \<rparr>,
           \<lparr> c_name = ''created_at'', c_dataType = Some ''TIMESTAMP'', c_isPrimaryKey = False,
             c_isForeignKey = False, c_isNullable = Some False, c_isUnique = None,
             c_defaultValue = Some ''CURRENT_TIMESTAMP'', c_references = None,
             c_isMultivalued = None, c_isDerived = None, c_isComposite = None,
             c_description = Some ''Creation timestamp'' \<rparr>,
           \<lparr> c_name = ''updated_at'', c_dataType = Some ''TIMESTAMP'', c_isPrimaryKey = False,
             c_isForeignKey = False, c_isNullable = Some False, c_isUnique = None,
             c_defaultValue = Some ''CURRENT_TIMESTAMP'', c_references = None,
             c_isMultivalued = None, c_isDerived = None, c_isComposite = None,
             c_description = Some ''Last update timestamp'' \<rparr>],
        t_description = Some ''Table for Book'', t_isWeakEntity = False,
        t_isLookupTable = True, t_isJunctionTable = False \<rparr>]"
proof -
  have "s_tables (generateSchema [bookEntity] [] name description) =
          [detectLookupTable (entityTable bookEntity)]"
    by (simp add: generateSchema_def processIdentifyingRelationships_def detectLookupTables_def)
  also have "\<dots> = [(entityTable bookEntity)\<lparr> t_isLookupTable := True \<rparr>]"
    by (simp only: detectLookupTable_book)
  finally show ?thesis
    by (simp add: entityTable_book)
qed

section \<open>Relationship lines of the Mermaid diagram\<close>

text \<open>
  The copy of the services maps the four relationship types of the normalizer to the
  symbols of the specification's table whenever the relationship carries no
  \<open>cardinality\<close> override and its two entity names are present.
\<close>

lemma generateRelationshipDefinition_type_symbols:
  assumes "r_cardinality r = None"
    and "truthy (r_sourceEntity r)" and "truthy (r_targetEntity r)"
    and "r_type r = Some ty"
    and "ty \<in> {''ONE_TO_ONE'', ''ONE_TO_MANY'', ''MANY_TO_ONE'', ''MANY_TO_MANY''}"
  shows "generateRelationshipDefinition r =
           ''    '' @ toLowerCase (sanitizeName (r_sourceEntity r)) @ '' ''
             @ fst (symbolsOfType ty) @ '' -- '' @ snd (symbolsOfType ty) @ '' ''
             @ toLowerCase (sanitizeName (r_targetEntity r))
             @ '' : '' @ dq @ escapeQuotes (orDefault (r_name r) ''relates'') @ dq @ nl"
  using assms
  by (auto simp: generateRelationshipDefinition_def symbolsOfType_def orElse_def truthy_def Let_def)



text \<open>
  C10. A relationship whose \<open>sourceEntity\<close> or \<open>targetEntity\<close> is absent (or empty) yields
  the empty string in both copies of \<open>generateRelationshipDefinition\<close>, whatever its
  \<open>sourceTable\<close> and \<open>targetTable\<close> are, and the diagram text accumulated by the loop over
  the relationships is the text that the loop accumulates without that relationship.
\<close>

theorem relationship_without_entity_names_is_omitted:
  assumes "\<not> truthy (r_sourceEntity r) \<or> \<not> truthy (r_targetEntity r)"
  shows "generateRelationshipDefinition r = []
       \<and> generateRelationshipDefinition_ctl r = []
       \<and> appendRelationships generateRelationshipDefinition acc (rs1 @ r # rs2)
           = appendRelationships generateRelationshipDefinition acc (rs1 @ rs2)
       \<and> appendRelationships generateRelationshipDefinition_ctl acc (rs1 @ r # rs2)
           = appendRelationships generateRelationshipDefinition_ctl acc (rs1 @ rs2)"
proof -
  have svc: "generateRelationshipDefinition r = []"
    using assms by (auto simp: generateRelationshipDefinition_def)
  have ctl: "generateRelationshipDefinition_ctl r = []"
    using assms by (auto simp: generateRelationshipDefinition_ctl_def)
  show ?thesis
    by (simp add: svc ctl appendRelationships_def)
qed

theorem relationship_without_entity_names_is_omitted_witness:
  "r_sourceTable tableOnlyRelationship = Some ''author''
   \<and> r_targetTable tableOnlyRelationship = Some ''book''
   \<and> \<not> truthy (r_sourceEntity tableOnlyRelationship)
   \<and> generateRelationshipDefinition tableOnlyRelationship = []
   \<and> generateRelationshipDefinition_ctl tableOnlyRelationship = []
   \<and> appendRelationships generateRelationshipDefinition ''erDiagram''
        (s_relationships authorBookSchema @ [tableOnlyRelationship])
       = appendRelationships generateRelationshipDefinition ''erDiagram''
           (s_relationships authorBookSchema)
   \<and> appendRelationships generateRelationshipDefinition_ctl ''erDiagram''
        (s_relationships authorBookSchema @ [tableOnlyRelationship])
       = appendRelationships generateRelationshipDefinition_ctl ''erDiagram''
           (s_relationships authorBookSchema)"
proof -
  have h: "\<not> truthy (r_sourceEntity tableOnlyRelationship)
           \<or> \<not> truthy (r_targetEntity tableOnlyRelationship)"
    by (simp add: tableOnlyRelationship_def truthy_def)
  have t: "r_sourceTable tableOnlyRelationship = Some ''author''
           \<and> r_targetTable tableOnlyRelationship = Some ''book''
           \<and> \<not> truthy (r_sourceEntity tableOnlyRelationship)"
    by (simp add: tableOnlyRelationship_def truthy_def)
  show ?thesis
    using t relationship_without_entity_names_is_omitted
            [OF h, of "''erDiagram''" "s_relationships authorBookSchema" "[]"]
    by simp
qed

section \<open>The schemas of the SQL scenarios\<close>

lemma studentCourseSchema_value:
  "studentCourseSchema =
     \<lparr> s_name = ''New Schema'', s_description = [],
       s_tables =
         [\<lparr> t_name = ''student'',
            t_columns = [idColumn, nameColumn, createdAtColumn, updatedAtColumn],
            t_description = Some ''Table for Student'', t_isWeakEntity = False,
            t_isLookupTable = True, t_isJunctionTable = False \<rparr>,
          \<lparr> t_name = ''course'',
            t_columns = [idColumn, nameColumn, createdAtColumn, updatedAtColumn],
            t_description = Some ''Table for Course'', t_isWeakEntity = False,
            t_isLookupTable = True, t_isJunctionTable = False \<rparr>],
       s_relationships =
         [\<lparr> r_name = Some ''relates_to'', r_sourceTable = Some ''student'',
            r_sourceEntity = Some ''Student'', r_targetTable = Some ''course'',
            r_targetEntity = Some ''Course'', r_sourceColumn = Some ''id'',
            r_targetColumn = Some ''id'', r_type = Some ''MANY_TO_MANY'', r_isIdentifying = False,
            r_description = Some ''Relationship between student and course'',
            r_sourceCardinality = None, r_targetCardinality = None,
            r_sourceParticipation = Some ''PARTIAL'', r_targetParticipation = Some ''PARTIAL'',
            r_attributes = Some [], r_cardinality = None \<rparr>],
       s_version = 1 \<rparr>"
  by code_simp



lemma default_primary_key:
  "primaryKeyOr fallback (tbl\<lparr> t_columns := [idColumn, nameColumn, createdAtColumn, updatedAtColumn] \<rparr>)
     = \<lparr> pk_name = ''id'', pk_dataType = Some ''INTEGER'' \<rparr>"
  by (simp add: primaryKeyOr_def idColumn_def)

section \<open>The SQL generator and the caller's schema\<close>

lemma readSchema_SomeD:
  assumes "readSchema h a = Some s"
  shows "\<exists>ta ra. st_cells h a = Some (SchemaCell (s_name s) (s_description s) ta ra (s_version s))
           \<and> st_cells h ta = Some (TablesCell (s_tables s))
           \<and> st_cells h ra = Some (RelationshipsCell (s_relationships s))"
  using assms
  by (auto simp: readSchema_def split: option.splits cell.splits)

lemma foldl_junctionStep_st:
  assumes "st_cells h p = Some (SchemaCell n d ta ra v)"
    and "ta \<noteq> p" and "ra \<noteq> p" and "ta \<noteq> ra"
    and "st_cells h ta = Some (TablesCell ts)"
    and "st_cells h ra = Some (RelationshipsCell rs)"
  shows "st_next (foldl (junctionStep_st p) h xs) = st_next h
       \<and> st_cells (foldl (junctionStep_st p) h xs) =
           ((st_cells h)(ta \<mapsto> TablesCell (fst (foldl junctionStep (ts, rs) xs))))
                        (ra \<mapsto> RelationshipsCell (snd (foldl junctionStep (ts, rs) xs)))"
  using assms
proof (induction xs arbitrary: h ts rs)
  case Nil
  then show ?case by (auto simp: fun_eq_iff)
next
  case (Cons x xs)
  obtain ts' rs' where step: "junctionStep (ts, rs) x = (ts', rs')"
    by (cases "junctionStep (ts, rs) x")
  let ?h = "junctionStep_st p h x"
  have cells: "st_cells ?h = ((st_cells h)(ta \<mapsto> TablesCell ts'))(ra \<mapsto> RelationshipsCell rs')"
    and nxt: "st_next ?h = st_next h"
    using Cons.prems step by (simp_all add: junctionStep_st_def)
  have ih: "st_next (foldl (junctionStep_st p) ?h xs) = st_next ?h
       \<and> st_cells (foldl (junctionStep_st p) ?h xs) =
           ((st_cells ?h)(ta \<mapsto> TablesCell (fst (foldl junctionStep (ts', rs') xs))))
                        (ra \<mapsto> RelationshipsCell (snd (foldl junctionStep (ts', rs') xs)))"
    by (rule Cons.IH) (use Cons.prems cells in auto)
  show ?case
    using ih step nxt by (auto simp: cells fun_eq_iff)
qed

lemma preprocessSchema_st_result:
  assumes "readSchema h a = Some s"
  shows "\<exists>h'. preprocessSchema_st h a = Some (Suc (Suc (st_next h)), h')
         \<and> readSchema h' (Suc (Suc (st_next h))) = Some (preprocessSchema s)
         \<and> (\<forall>x. x < st_next h \<longrightarrow> st_cells h' x = st_cells h x)"
proof -
  let ?n = "st_next h"
  let ?P = "SchemaCell (s_name s) (s_description s) ?n (Suc ?n) (s_version s)"
  let ?h1 = "\<lparr> st_cells = (st_cells h)(?n \<mapsto> TablesCell (s_tables s),
                 Suc ?n \<mapsto> RelationshipsCell (s_relationships s), Suc (Suc ?n) \<mapsto> ?P),
               st_next = Suc (Suc (Suc ?n)) \<rparr>"
  let ?xs = "filter isManyToMany (s_relationships s)"
  let ?h' = "foldl (junctionStep_st (Suc (Suc ?n))) ?h1 ?xs"
  let ?r = "foldl junctionStep (s_tables s, s_relationships s) ?xs"
  have dc: "deepCopy h a = Some (Suc (Suc ?n), ?h1)"
    using assms by (simp add: deepCopy_def allocate_def)
  have rd: "readSchema ?h1 (Suc (Suc ?n)) = Some s"
    by (simp add: readSchema_def)
  have fold: "st_next ?h' = st_next ?h1
       \<and> st_cells ?h' =
           ((st_cells ?h1)(?n \<mapsto> TablesCell (fst ?r)))(Suc ?n \<mapsto> RelationshipsCell (snd ?r))"
    by (rule foldl_junctionStep_st) auto
  have pre: "preprocessSchema_st h a = Some (Suc (Suc ?n), ?h')"
    by (simp add: preprocessSchema_st_def dc rd)
  have val: "readSchema ?h' (Suc (Suc ?n)) = Some (preprocessSchema s)"
    using fold by (simp add: readSchema_def preprocessSchema_def split: prod.splits)
  have frame: "\<forall>x. x < ?n \<longrightarrow> st_cells ?h' x = st_cells h x"
    using fold by simp
  show ?thesis
    using pre val frame by blast
qed


lemma generateSQL_store_cases:
  "snd (generateSQL gens fmt h schema dialect) = h
   \<or> (\<exists>p. preprocessSchema_st h schema = Some (p, snd (generateSQL gens fmt h schema dialect)))"
  by (auto simp: generateSQL_def Let_def split: option.splits property.splits prod.splits)

lemma storeOf_wf: "\<forall>x. st_next (storeOf s) \<le> x \<longrightarrow> st_cells (storeOf s) x = None"
  by (simp add: storeOf_def)

lemma readSchema_storeOf: "readSchema (storeOf s) 2 = Some s"
  by (simp add: storeOf_def readSchema_def)

lemma studentCourse_tables:
  "map t_name (s_tables studentCourseSchema) = [''student'', ''course'']"
  by (simp add: studentCourseSchema_value)

lemma studentCourse_processed_tables:
  "map t_name (s_tables (preprocessSchema studentCourseSchema)) =
     [''student'', ''course'', ''student_course'']"
  by (simp add: studentCourseSchema_value preprocessSchema_def isManyToMany_def junctionStep_def
        some_def junctionTable_def sameEndpoints_def)

text \<open>
  C5. In a store where nothing lies beyond the allocation pointer, \<open>generateSQL\<close> leaves
  every cell that existed before the call as it was, whatever the backends, the formatter
  and the dialect are and whether it returns a script or raises: the schema object of the
  caller has the same tables, columns and relationships after the call as before.
  The junction-table rewrite happens in a schema object at an address that was free before
  the call; that object ends with the value \<open>preprocessSchema s\<close> while the caller's object
  still has the value \<open>s\<close>.
\<close>

theorem generateSQL_leaves_schema_unchanged:
  assumes wf: "\<forall>x. st_next h \<le> x \<longrightarrow> st_cells h x = None"
  shows "readSchema (snd (generateSQL gens fmt h schema dialect)) schema = readSchema h schema
       \<and> (\<forall>x. st_cells h x \<noteq> None \<longrightarrow>
              st_cells (snd (generateSQL gens fmt h schema dialect)) x = st_cells h x)
       \<and> (\<forall>s. readSchema h schema = Some s \<longrightarrow>
              (\<exists>p h1. preprocessSchema_st h schema = Some (p, h1)
                     \<and> st_cells h p = None
                     \<and> readSchema h1 p = Some (preprocessSchema s)
                     \<and> readSchema h1 schema = Some s))"
proof (cases "readSchema h schema")
  case None
  then have "snd (generateSQL gens fmt h schema dialect) = h"
    by (simp add: generateSQL_def)
  then show ?thesis
    using None by simp
next
  case (Some s)
  let ?h' = "snd (generateSQL gens fmt h schema dialect)"
  let ?p = "Suc (Suc (st_next h))"
  have old: "x < st_next h" if "st_cells h x \<noteq> None" for x
    using wf that by (meson not_le)
  obtain ta ra where c:
      "st_cells h schema = Some (SchemaCell (s_name s) (s_description s) ta ra (s_version s))"
      "st_cells h ta = Some (TablesCell (s_tables s))"
      "st_cells h ra = Some (RelationshipsCell (s_relationships s))"
    using readSchema_SomeD [OF Some] by blast
  then have lt: "schema < st_next h" "ta < st_next h" "ra < st_next h"
    using old by auto
  have keep: "readSchema k schema = Some s"
    if "\<forall>x. x < st_next h \<longrightarrow> st_cells k x = st_cells h x" for k
    using that c lt by (simp add: readSchema_def)
  obtain h1 where pre: "preprocessSchema_st h schema = Some (?p, h1)"
      and val: "readSchema h1 ?p = Some (preprocessSchema s)"
      and frame: "\<forall>x. x < st_next h \<longrightarrow> st_cells h1 x = st_cells h x"
    using preprocessSchema_st_result [OF Some] by blast
  have "?h' = h \<or> ?h' = h1"
    using generateSQL_store_cases [of gens fmt h schema dialect] pre by auto
  then have same: "\<forall>x. x < st_next h \<longrightarrow> st_cells ?h' x = st_cells h x"
    using frame by auto
  have fresh: "st_cells h ?p = None"
    using wf by simp
  have first: "readSchema ?h' schema = readSchema h schema"
    using keep [OF same] Some by simp
  have second: "\<forall>x. st_cells h x \<noteq> None \<longrightarrow> st_cells ?h' x = st_cells h x"
    using same old by blast
  have third: "\<exists>p h1. preprocessSchema_st h schema = Some (p, h1)
                     \<and> st_cells h p = None
                     \<and> readSchema h1 p = Some (preprocessSchema s)
                     \<and> readSchema h1 schema = Some s"
    using pre fresh val keep [OF frame] by blast
  show ?thesis
    using first second third Some by simp
qed

theorem generateSQL_leaves_schema_unchanged_witness:
  "readSchema (storeOf studentCourseSchema) 2 = Some studentCourseSchema
   \<and> readSchema (snd (generateSQL (\<lambda>b. sampleGenerator) (\<lambda>sql lang. None)
                        (storeOf studentCourseSchema) 2 ''mysql'')) 2
       = Some studentCourseSchema
   \<and> map t_name (s_tables studentCourseSchema) = [''student'', ''course'']
   \<and> map t_name (s_tables (preprocessSchema studentCourseSchema)) =
       [''student'', ''course'', ''student_course'']"
proof -
  have wf: "\<forall>x. st_next (storeOf studentCourseSchema) \<le> x
               \<longrightarrow> st_cells (storeOf studentCourseSchema) x = None"
    by (rule storeOf_wf)
  show ?thesis
    using generateSQL_leaves_schema_unchanged
            [OF wf, where gens = "\<lambda>b. sampleGenerator" and fmt = "\<lambda>sql lang. None"
               and schema = 2 and dialect = "''mysql''"]
    by (simp add: readSchema_storeOf studentCourse_tables studentCourse_processed_tables)
qed

section \<open>The dialect selector\<close>

text \<open>
  A dialect whose lower-case form is neither one of the four backend names nor the name of
  a property of \<open>Object.prototype\<close> selects the MySQL backend, as \<open>oracle\<close> does.
\<close>

lemma getDialectGenerator_fallback:
  assumes "toLowerCase dialect \<notin> set [''mysql'', ''postgresql'', ''sqlite'', ''sqlserver'']"
    and "toLowerCase dialect \<notin> set objectPrototypeKeys"
  shows "getDialectGenerator dialect = Backend MySQL"
  using assms by (simp add: getDialectGenerator_def generatorsLookup_def)

lemma getDialectGenerator_oracle: "getDialectGenerator ''oracle'' = Backend MySQL"
  by code_simp

lemma generateSQL_oracle:
  "fst (generateSQL sampleBackends (\<lambda>sql lang. None) (storeOf studentCourseSchema) 2 ''oracle'')
     = Inr (''-- mysql script'' @ nl @ nl @ ''CREATE TABLE student'' @ nl @ nl
            @ ''CREATE TABLE course'' @ nl @ nl @ ''CREATE TABLE student_course'')"
  by code_simp

text \<open>
  C6. The lookup \<open>generators[normalizedDialect]\<close> also finds the properties that the object
  literal inherits. For the dialect \<open>constructor\<close>, whose lower-case form is none of
  \<open>mysql\<close>, \<open>postgresql\<close>, \<open>sqlite\<close> and \<open>sqlserver\<close>, it yields the function \<open>Object\<close>, which
  is truthy, so the MySQL backend is not substituted; the first use of the result,
  \<open>generator.headerComment(schema)\<close>, raises, and \<open>generateSQL\<close> fails whatever the backends
  and the formatter are.
\<close>

theorem dialect_constructor_raises:
  "toLowerCase ''constructor'' \<notin> set [''mysql'', ''postgresql'', ''sqlite'', ''sqlserver'']
   \<and> getDialectGenerator ''constructor'' = Inherited ''constructor''
   \<and> fst (generateSQL gens fmt (storeOf studentCourseSchema) 2 ''constructor'')
       = Inl (FailedToGenerateSQL ''generator.headerComment is not a function'')"
proof -
  have lower: "toLowerCase ''constructor'' = ''constructor''"
    by code_simp
  have found: "getDialectGenerator ''constructor'' = Inherited ''constructor''"
    by code_simp
  have rd: "readSchema (storeOf studentCourseSchema) 2 = Some studentCourseSchema"
    by (simp add: storeOf_def readSchema_def)
  show ?thesis
    by (simp add: lower found rd generateSQL_def)
qed

section \<open>Junction tables for many-to-many relationships\<close>









lemma t_name_junctionTable [simp]: "t_name (junctionTable st tt x) = t_name st @ ''_'' @ t_name tt"
  by (simp add: junctionTable_def)

lemma r_type_junction [simp]:
  "r_type (sourceToJunction st tt x) = Some ''ONE_TO_MANY''"
  "r_type (targetToJunction st tt x) = Some ''ONE_TO_MANY''"
  by (simp_all add: sourceToJunction_def targetToJunction_def)

lemma not_sameEndpoints_junction [simp]:
  "\<not> sameEndpoints r (sourceToJunction st tt x)"
  "\<not> sameEndpoints r (targetToJunction st tt x)"
  by (simp_all add: sameEndpoints_def)















section \<open>Time stamp columns of the normalized tables\<close>



lemma id_suffix_last: "last (xs @ ''_id'') = CHR ''d''"
  by simp







lemma promote_name [simp]: "c_name (promoteForeignKey owner c) = c_name c"
  by (simp add: promoteForeignKey_def)














section \<open>Foreign keys of one-to-many relationships\<close>


















lemma foreignKeyColumn_fields [simp]:
  "c_name (foreignKeyColumn ref pk) = toLowerCase (t_name ref) @ ''_id''"
  "\<not> c_isPrimaryKey (foreignKeyColumn ref pk)"
  by (simp_all add: foreignKeyColumn_def)
















lemma detectLookupTable_keeps [simp]:
  "t_columns (detectLookupTable t) = t_columns t" "t_name (detectLookupTable t) = t_name t"
  by (simp_all add: detectLookupTable_def Let_def)





section \<open>The two documentation formats\<close>






















section \<open>Running the auto-formatter on its own output\<close>

lemma splitLines_not_Nil [simp]: "splitLines s \<noteq> []"
  by (induction s) (auto split: list.splits)






lemma trim_no_leading_space: "trim l = c # cs \<Longrightarrow> \<not> isSpace c"
proof -
  assume t: "trim l = c # cs"
  define x where "x = dropWhile isSpace l"
  have "rev (dropWhile isSpace (rev x)) = c # cs" using t by (simp add: trim_def x_def)
  then have "dropWhile isSpace (rev x) = rev cs @ [c]" by (metis rev.simps(2) rev_rev_ident)
  moreover obtain j where "dropWhile isSpace (rev x) = drop j (rev x)"
    by (metis dropWhile_eq_drop)
  ultimately have "rev cs @ [c] = drop j (rev x)" by simp
  then have "c = last (rev x)" by (metis last_drop last_snoc drop_eq_Nil not_le snoc_eq_iff_butlast)
  moreover have "x \<noteq> []" using \<open>rev cs @ [c] = drop j (rev x)\<close> by auto
  ultimately have "c = hd x" by (simp add: last_rev)
  then show ?thesis using \<open>x \<noteq> []\<close> hd_dropWhile [of isSpace l] x_def by auto
qed

lemma dropWhile_trim: "dropWhile isSpace (trim l) = trim l"
  by (cases "trim l") (auto dest: trim_no_leading_space)

lemma trim_trim [simp]: "trim (trim l) = trim l"
proof -
  have r: "rev (trim l) = dropWhile isSpace (rev (dropWhile isSpace l))"
    by (simp add: trim_def)
  have "trim (trim l) = rev (dropWhile isSpace (rev (dropWhile isSpace (trim l))))"
    by (rule trim_def)
  also have "\<dots> = rev (dropWhile isSpace (rev (trim l)))"
    by (simp only: dropWhile_trim)
  also have "\<dots> = rev (dropWhile isSpace (rev (dropWhile isSpace l)))"
    by (simp only: r dropWhile_idem)
  also have "\<dots> = trim l"
    by (simp only: trim_def)
  finally show ?thesis .
qed

lemma trim_space [simp]: "trim (CHR '' '' # s) = trim s"
  by (simp add: trim_def isSpace_def)

lemma trim_Nil [simp]: "trim [] = []"
  by (simp add: trim_def)





lemma exec_operator_space:
  "exec (seq [operator, d, operator]) (CHR '' '' # s) = None"
  by (simp add: exec_def operator_def)

lemma replaceAll_operator_space:
  "replaceAll (seq [operator, d, operator]) r (CHR '' '' # s)
     = CHR '' '' # replaceAll (seq [operator, d, operator]) r s"
  by (subst replaceAll.simps) (simp only: exec_operator_space option.case list.case)

lemma spaceOperators_space [simp]:
  "spaceOperators (CHR '' '' # s) = CHR '' '' # spaceOperators s"
  by (simp only: spaceOperators_def Let_def replaceAll_operator_space)

lemma startsWith_trim_space [simp]: "startsWith (trim l) (CHR '' '' # s) = False"
proof (cases "trim l")
  case Nil
  then show ?thesis by simp
next
  case (Cons c cs)
  then have "\<not> isSpace c" by (rule trim_no_leading_space)
  then have "c \<noteq> CHR '' ''" by (auto simp add: isSpace_def)
  then show ?thesis using Cons by simp
qed













text \<open>
  The second proviso, in the copy of the controllers: removing \<open>required\<close> once can leave
  a new \<open>required\<close> behind, which the loop over the lines then removes from an attribute
  line. The line is indented as an attribute although what remains is the header of an
  entity; the replacements on the whole text leave it unchanged, and the second run
  indents it as a header.
\<close>

lemma required_left_behind_ctl:
  "\<not> nothingToClean_ctl (separateBlocks_ctl ''x requi requiredred{'')
   \<and> autoFormatMermaidSyntax_ctl ''x requi requiredred{'' = ''        x{''
   \<and> separateBlocks_ctl ''        x{'' = ''        x{''
   \<and> autoFormatMermaidSyntax_ctl ''        x{'' = ''    x{''"
  by code_simp






end
